theory Spec2Isabelle
  imports Complex_Main "HOL-Library.AList"
begin

section \<open>Python values\<close>

text \<open>
  The answer-scoring service is written in Python. Its floats are modelled as exact
  reals: every threshold, weight and clamp of the source is a decimal literal, read here as
  the rational it denotes. Python's unbounded ints are \<^typ>\<open>int\<close>. A text is a
  \<^typ>\<open>string\<close> whose characters are the code points 0 to 255; the character classes
  below are the ones Python 3 gives these code points. An exception is a value of
  \<open>py_error\<close>, and a function that can raise returns \<open>py_error + 'a\<close>.
\<close>

datatype py_error = ZeroDivisionError | ValueError | RuntimeError string

text \<open>The message \<open>str(e)\<close> of an exception.\<close>

fun str_error :: "py_error \<Rightarrow> string" where
  "str_error ZeroDivisionError = ''division by zero''"
| "str_error ValueError = ''max() arg is an empty sequence''"
| "str_error (RuntimeError m) = m"

text \<open>\<open>str.isspace\<close>, which is also what \<open>str.split()\<close>, \<open>str.strip()\<close> and the
  regular expression class \<open>\s\<close> use.\<close>

definition py_isspace :: "char \<Rightarrow> bool" where
  "py_isspace c =
     (let n = (of_char c :: nat)
      in (9 \<le> n \<and> n \<le> 13) \<or> (28 \<le> n \<and> n \<le> 32) \<or> n = 133 \<or> n = 160)"

text \<open>The regular expression class \<open>\w\<close>: alphanumeric characters and the underscore.\<close>

definition py_isword :: "char \<Rightarrow> bool" where
  "py_isword c =
     (let n = (of_char c :: nat)
      in (48 \<le> n \<and> n \<le> 57) \<or> (65 \<le> n \<and> n \<le> 90) \<or> n = 95 \<or> (97 \<le> n \<and> n \<le> 122)
         \<or> n = 170 \<or> n = 178 \<or> n = 179 \<or> n = 181 \<or> n = 185 \<or> n = 186
         \<or> (188 \<le> n \<and> n \<le> 190) \<or> (192 \<le> n \<and> n \<le> 214) \<or> (216 \<le> n \<and> n \<le> 246)
         \<or> (248 \<le> n \<and> n \<le> 255))"

definition lower_char :: "char \<Rightarrow> char" where
  "lower_char c =
     (let n = (of_char c :: nat)
      in if (65 \<le> n \<and> n \<le> 90) \<or> (192 \<le> n \<and> n \<le> 214) \<or> (216 \<le> n \<and> n \<le> 222)
         then char_of (n + 32) else c)"

definition py_lower :: "string \<Rightarrow> string" where
  "py_lower text = map lower_char text"

text \<open>\<open>text.split()\<close>: the maximal runs of characters that are not whitespace.\<close>

fun split_from :: "string \<Rightarrow> string \<Rightarrow> string list" where
  "split_from cur [] = (if cur = [] then [] else [cur])"
| "split_from cur (c # cs) =
     (if py_isspace c
      then (if cur = [] then split_from [] cs else cur # split_from [] cs)
      else split_from (cur @ [c]) cs)"

definition py_split :: "string \<Rightarrow> string list" where
  "py_split text = split_from [] text"

text \<open>\<open>text.split(sep)\<close> for a separator of one character: empty pieces are kept.\<close>

fun split_on_from :: "char \<Rightarrow> string \<Rightarrow> string \<Rightarrow> string list" where
  "split_on_from sep cur [] = [cur]"
| "split_on_from sep cur (c # cs) =
     (if c = sep then cur # split_on_from sep [] cs else split_on_from sep (cur @ [c]) cs)"

definition py_split_on :: "char \<Rightarrow> string \<Rightarrow> string list" where
  "py_split_on sep text = split_on_from sep [] text"

definition py_strip :: "string \<Rightarrow> string" where
  "py_strip text = rev (dropWhile py_isspace (rev (dropWhile py_isspace text)))"

text \<open>\<open>needle in haystack\<close> on strings: a contiguous occurrence.\<close>

fun py_startswith :: "string \<Rightarrow> string \<Rightarrow> bool" where
  "py_startswith text [] = True"
| "py_startswith [] (p # ps) = False"
| "py_startswith (c # cs) (p # ps) = (c = p \<and> py_startswith cs ps)"

fun py_in :: "string \<Rightarrow> string \<Rightarrow> bool" where
  "py_in needle [] = (needle = [])"
| "py_in needle (c # cs) = (py_startswith (c # cs) needle \<or> py_in needle cs)"

text \<open>\<open>round(x, ndigits)\<close>: to the nearest multiple of \<open>10 ^ -ndigits\<close>, a tie going to
  the even one.\<close>

definition round_half_even :: "real \<Rightarrow> int" where
  "round_half_even x =
     (let f = \<lfloor>x\<rfloor>; d = x - of_int f
      in if d < 1 / 2 then f else if 1 / 2 < d then f + 1 else if even f then f else f + 1)"

definition py_round :: "real \<Rightarrow> nat \<Rightarrow> real" where
  "py_round x ndigits = of_int (round_half_even (x * 10 ^ ndigits)) / 10 ^ ndigits"

text \<open>\<open>int(x)\<close> on a float truncates towards zero.\<close>

definition py_int :: "real \<Rightarrow> int" where
  "py_int x = (if 0 \<le> x then \<lfloor>x\<rfloor> else \<lceil>x\<rceil>)"

text \<open>\<open>max(xs, key=f)\<close>: the first element whose key is maximal; it raises on an
  empty sequence.\<close>

fun max_from :: "('a \<Rightarrow> int) \<Rightarrow> 'a \<Rightarrow> 'a list \<Rightarrow> 'a" where
  "max_from key best [] = best"
| "max_from key best (x # xs) =
     (if key best < key x then max_from key x xs else max_from key best xs)"

definition py_max :: "('a \<Rightarrow> int) \<Rightarrow> 'a list \<Rightarrow> py_error + 'a" where
  "py_max key xs = (case xs of [] \<Rightarrow> Inl ValueError | x # rest \<Rightarrow> Inr (max_from key x rest))"

section \<open>scoring\_algorithm.py\<close>

text \<open>The dictionary \<open>breakdown\<close> built by \<open>calculate_final_score\<close>.\<close>

record scoring_breakdown =
  b_ensemble_score :: real
  b_concept_coverage :: real
  b_concept_bonus :: real
  b_adjusted_similarity :: real
  b_final_score :: real
  b_confidence :: real
  b_key_concepts_present :: int
  b_total_key_concepts :: int

text \<open>The dictionary returned by \<open>calculate_final_score\<close>; its keys are \<open>similarity\<close>,
  \<open>score\<close>, \<open>confidence\<close> and \<open>breakdown\<close>.\<close>

record scoring_result =
  s_similarity :: real
  s_score :: real
  s_confidence :: real
  s_breakdown :: scoring_breakdown

definition max_score :: real where
  "max_score = 6.0"

definition calculate_confidence :: "real \<Rightarrow> real \<Rightarrow> int \<Rightarrow> int \<Rightarrow> real" where
  "calculate_confidence ensemble_score concept_coverage key_concepts_present total_key_concepts =
     (let base_confidence = 0.7;
          base_confidence =
            (if concept_coverage > 0.8 then base_confidence + 0.2
             else if concept_coverage > 0.6 then base_confidence + 0.1
             else base_confidence);
          base_confidence =
            (if ensemble_score < 0.3 then base_confidence - 0.2 else base_confidence);
          base_confidence =
            (if key_concepts_present = 0 \<and> total_key_concepts > 0 then base_confidence - 0.3
             else base_confidence)
      in max 0.3 (min 1.0 base_confidence))"

text \<open>The partial-credit step. The division \<open>key_concepts_present / total_key_concepts\<close>
  raises when the divisor is zero.\<close>

definition partial_credit_step :: "real \<Rightarrow> int \<Rightarrow> int \<Rightarrow> py_error + real" where
  "partial_credit_step adjusted_similarity key_concepts_present total_key_concepts =
     (if adjusted_similarity < 0.5 then
        (if key_concepts_present > 0 then
           (if total_key_concepts = 0 then Inl ZeroDivisionError
            else let partial_credit =
                       (of_int key_concepts_present / of_int total_key_concepts) * 0.3
                 in Inr (max adjusted_similarity partial_credit))
         else Inr adjusted_similarity)
      else Inr adjusted_similarity)"

definition calculate_final_score :: "real \<Rightarrow> real \<Rightarrow> int \<Rightarrow> int \<Rightarrow> py_error + scoring_result" where
  "calculate_final_score ensemble_score concept_coverage key_concepts_present total_key_concepts =
     (let concept_bonus = concept_coverage * 0.15;
          adjusted_similarity = ensemble_score + concept_bonus;
          adjusted_similarity = min adjusted_similarity 1.0
      in case partial_credit_step adjusted_similarity key_concepts_present total_key_concepts of
           Inl e \<Rightarrow> Inl e
         | Inr adjusted_similarity \<Rightarrow>
             (let confidence = calculate_confidence ensemble_score concept_coverage
                                 key_concepts_present total_key_concepts;
                  final_score = py_round (adjusted_similarity * max_score) 2;
                  final_score = max 0.0 (min max_score final_score);
                  breakdown = \<lparr> b_ensemble_score = py_round ensemble_score 4,
                                b_concept_coverage = py_round concept_coverage 4,
                                b_concept_bonus = py_round concept_bonus 4,
                                b_adjusted_similarity = py_round adjusted_similarity 4,
                                b_final_score = final_score,
                                b_confidence = py_round confidence 4,
                                b_key_concepts_present = key_concepts_present,
                                b_total_key_concepts = total_key_concepts \<rparr>
              in Inr \<lparr> s_similarity = adjusted_similarity,
                       s_score = final_score,
                       s_confidence = confidence,
                       s_breakdown = breakdown \<rparr>))"

section \<open>ensemble\_evaluator.py\<close>

text \<open>The dictionary \<open>model_scores\<close> of the four signals.\<close>

record model_scores =
  semantic_similarity :: real
  keyword_matching :: real
  length_similarity :: real
  structure_similarity :: real

text \<open>The dictionary returned by \<open>ensemble_evaluate\<close>, without its processing time;
  \<open>model_scores\<close> is \<open>None\<close> for the empty dictionary.\<close>

record ensemble_result =
  weighted_score :: real
  e_confidence :: real
  e_model_scores :: "model_scores option"
  variance :: real

definition weight_semantic :: real where "weight_semantic = 0.6"
definition weight_keyword :: real where "weight_keyword = 0.2"
definition weight_length :: real where "weight_length = 0.1"
definition weight_structure :: real where "weight_structure = 0.1"

definition calculate_semantic_similarity :: "string \<Rightarrow> string \<Rightarrow> real" where
  "calculate_semantic_similarity text1 text2 =
     (let words1 = set (py_split (py_lower text1));
          words2 = set (py_split (py_lower text2))
      in if words1 = {} \<or> words2 = {} then 0.0
         else let intersection = card (words1 \<inter> words2);
                  union = card (words1 \<union> words2)
              in if union > 0 then real intersection / real union else 0.0)"

definition calculate_keyword_similarity :: "string \<Rightarrow> string \<Rightarrow> real" where
  "calculate_keyword_similarity text1 text2 =
     (let words1 = py_split (py_lower text1);
          words2 = py_split (py_lower text2)
      in if words1 = [] \<or> words2 = [] then 0.0
         else let matches = length (filter (\<lambda>word. word \<in> set words2) words1)
              in real matches / real (max (length words1) (length words2)))"

definition calculate_length_similarity :: "string \<Rightarrow> string \<Rightarrow> real" where
  "calculate_length_similarity text1 text2 =
     (let len1 = length (py_split text1); len2 = length (py_split text2)
      in if len1 = 0 \<and> len2 = 0 then 1.0
         else if len1 = 0 \<or> len2 = 0 then 0.0
         else real (min len1 len2) / real (max len1 len2))"

definition count_sentences :: "string \<Rightarrow> nat" where
  "count_sentences text = length (filter (\<lambda>s. py_strip s \<noteq> []) (py_split_on CHR ''.'' text))"

definition calculate_structure_similarity :: "string \<Rightarrow> string \<Rightarrow> real" where
  "calculate_structure_similarity text1 text2 =
     (let sentences1 = count_sentences text1; sentences2 = count_sentences text2
      in if sentences1 = 0 \<and> sentences2 = 0 then 1.0
         else if sentences1 = 0 \<or> sentences2 = 0 then 0.5
         else real (min sentences1 sentences2) / real (max sentences1 sentences2))"

text \<open>\<open>numpy.var\<close>: the population variance, the mean of the squared deviations from
  the mean.\<close>

definition np_var :: "real list \<Rightarrow> real" where
  "np_var xs =
     (let mean = sum_list xs / real (length xs)
      in sum_list (map (\<lambda>x. (x - mean)\<^sup>2) xs) / real (length xs))"

definition ensemble_evaluate :: "string \<Rightarrow> string \<Rightarrow> py_error + ensemble_result" where
  "ensemble_evaluate model_answer student_answer =
     (if model_answer = [] \<or> student_answer = [] then
        Inr \<lparr> weighted_score = 0.0, e_confidence = 0.0, e_model_scores = None, variance = 0.0 \<rparr>
      else
        let semantic_score = calculate_semantic_similarity model_answer student_answer;
            keyword_score = calculate_keyword_similarity model_answer student_answer;
            length_score = calculate_length_similarity model_answer student_answer;
            structure_score = calculate_structure_similarity model_answer student_answer;
            scores = \<lparr> semantic_similarity = semantic_score,
                       keyword_matching = keyword_score,
                       length_similarity = length_score,
                       structure_similarity = structure_score \<rparr>;
            weighted = semantic_score * weight_semantic + keyword_score * weight_keyword
                       + length_score * weight_length + structure_score * weight_structure;
            weighted = min (max weighted 0.0) 1.0;
            scores_array = [semantic_score, keyword_score, length_score, structure_score];
            var = (if length scores_array > 1 then np_var scores_array else 0.0);
            confidence = 1.0 - min var 1.0;
            confidence = max 0.5 confidence
        in Inr \<lparr> weighted_score = weighted, e_confidence = confidence,
                 e_model_scores = Some scores, variance = var \<rparr>)"

section \<open>context\_analyzer.py\<close>

text \<open>The table \<open>technical_keywords\<close>, a dictionary literal: its iteration order is the
  order in which it is written.\<close>

definition technical_keywords :: "(string \<times> string list) list" where
  "technical_keywords =
     [(''CSE'', [''algorithm'', ''code'', ''function'', ''variable'', ''loop'', ''array'',
                 ''database'', ''network'', ''software'', ''programming'']),
      (''ECE'', [''circuit'', ''signal'', ''frequency'', ''voltage'', ''current'',
                 ''transistor'', ''amplifier'', ''digital'', ''analog'']),
      (''EEE'', [''power'', ''motor'', ''generator'', ''transformer'', ''electrical'',
                 ''energy'', ''voltage'', ''current'']),
      (''Mechanical'', [''force'', ''motion'', ''energy'', ''heat'', ''machine'', ''engine'',
                        ''thermodynamics'', ''mechanics'']),
      (''Civil'', [''structure'', ''concrete'', ''steel'', ''building'', ''construction'',
                   ''foundation'', ''beam'', ''load'']),
      (''programming'', [''code'', ''function'', ''variable'', ''algorithm'', ''loop'',
                         ''array'']),
      (''mathematics'', [''equation'', ''formula'', ''calculate'', ''solve'', ''theorem'']),
      (''science'', [''experiment'', ''hypothesis'', ''theory'', ''analysis'', ''research''])]"

text \<open>The inner loop over the keywords of one domain; its state is \<open>score\<close> and
  \<open>found_terms\<close>.\<close>

fun keyword_loop :: "string \<Rightarrow> string list \<Rightarrow> int \<times> string list \<Rightarrow> int \<times> string list" where
  "keyword_loop text_lower [] (score, found_terms) = (score, found_terms)"
| "keyword_loop text_lower (keyword # keywords) (score, found_terms) =
     (if py_in keyword text_lower
      then keyword_loop text_lower keywords (score + 1, found_terms @ [keyword])
      else keyword_loop text_lower keywords (score, found_terms))"

text \<open>The outer loop over the table; its state is the dictionary \<open>domain_scores\<close>, in
  insertion order, and \<open>found_terms\<close>.\<close>

fun domain_loop :: "string \<Rightarrow> (string \<times> string list) list
    \<Rightarrow> (string \<times> int) list \<times> string list \<Rightarrow> (string \<times> int) list \<times> string list" where
  "domain_loop text_lower [] (domain_scores, found_terms) = (domain_scores, found_terms)"
| "domain_loop text_lower ((domain, keywords) # table) (domain_scores, found_terms) =
     (case keyword_loop text_lower keywords (0, found_terms) of
        (score, found_terms) \<Rightarrow>
          domain_loop text_lower table (AList.update domain score domain_scores, found_terms))"

text \<open>The dictionary returned by \<open>analyze\<close> (its keys \<open>context\<close> and \<open>domain\<close> hold the
  same value). \<open>concepts\<close> is \<open>list(set(found_terms))\<close>, whose order Python leaves open:
  here the terms are kept in the order of their first occurrence, and the service only
  uses them as a set and through their number.\<close>

record context_profile =
  domain :: string
  complexity :: string
  concepts :: "string list"
  technical_terms :: "string list"
  word_count :: int
  technical_score :: int

text \<open>\<open>max(domain_scores, key=domain_scores.get)\<close> walks the keys in insertion order
  and compares the value stored under each: it is the first component of the first pair
  whose second component is maximal. \<open>max(domain_scores.values())\<close> is the second component
  of such a pair.\<close>

definition analyze :: "string \<Rightarrow> py_error + context_profile" where
  "analyze text =
     (if text = [] then
        Inr \<lparr> domain = ''general'', complexity = ''low'', concepts = [],
              technical_terms = [], word_count = 0, technical_score = 0 \<rparr>
      else
        let text_lower = py_lower text;
            words = py_split text
        in case domain_loop text_lower technical_keywords ([], []) of
             (domain_scores, found_terms) \<Rightarrow>
               (case py_max snd domain_scores of
                  Inl e \<Rightarrow> Inl e
                | Inr best \<Rightarrow>
                    let detected_domain = (if snd best > 0 then fst best else ''general'');
                        total = sum_list (map snd domain_scores);
                        complexity = ''low'';
                        complexity = (if length words > 50 then ''medium'' else complexity);
                        complexity = (if length words > 100 \<or> total > 3 then ''high''
                                      else complexity)
                    in Inr \<lparr> domain = detected_domain, complexity = complexity,
                             concepts = remdups found_terms,
                             technical_terms = found_terms,
                             word_count = int (length words),
                             technical_score = total \<rparr>))"

definition calculate_concept_coverage :: "string list \<Rightarrow> string list \<Rightarrow> real" where
  "calculate_concept_coverage student_concepts model_concepts =
     (if model_concepts = [] then 1.0
      else let student_set = set student_concepts;
               model_set = set model_concepts
           in if model_set = {} then 1.0
              else let matched = card (student_set \<inter> model_set)
                   in real matched / real (card model_set))"

section \<open>text\_preprocessor.py\<close>

record preprocessed =
  normalized_text :: string
  corrections :: "string list"
  preserved_terms :: "string list"

text \<open>\<open>re.sub(r'\s+', ' ', text)\<close>: every maximal run of whitespace becomes one space.
  The flag says whether the previous character belonged to a run.\<close>

fun sub_whitespace :: "bool \<Rightarrow> string \<Rightarrow> string" where
  "sub_whitespace in_run [] = []"
| "sub_whitespace in_run (c # cs) =
     (if py_isspace c
      then (if in_run then sub_whitespace True cs else CHR '' '' # sub_whitespace True cs)
      else c # sub_whitespace False cs)"

text \<open>\<open>re.sub(r'[^\w\s.,]', '', text)\<close>: only word characters, whitespace, periods and
  commas are kept.\<close>

definition sub_punctuation :: "string \<Rightarrow> string" where
  "sub_punctuation text =
     filter (\<lambda>c. py_isword c \<or> py_isspace c \<or> c = CHR ''.'' \<or> c = CHR '','') text"

definition preprocess :: "string \<Rightarrow> py_error + preprocessed" where
  "preprocess text =
     (if text = [] then
        Inr \<lparr> normalized_text = [], corrections = [], preserved_terms = [] \<rparr>
      else
        let original_text = text;
            corrs = [];
            text = py_lower text;
            corrs = (if text \<noteq> original_text then corrs @ [''Converted to lowercase'']
                     else corrs);
            cleaned = sub_whitespace False text;
            corrs = (if cleaned \<noteq> text then corrs @ [''Normalized whitespace''] else corrs);
            text = cleaned;
            cleaned = sub_punctuation text;
            corrs = (if cleaned \<noteq> text then corrs @ [''Removed special punctuation'']
                     else corrs);
            text = cleaned
        in Inr \<lparr> normalized_text = py_strip text, corrections = corrs,
                 preserved_terms = [] \<rparr>)"

text \<open>\<open>error_handler.handle_preprocessing_error\<close>: the original text, unchanged.\<close>

definition handle_preprocessing_error :: "string \<Rightarrow> preprocessed" where
  "handle_preprocessing_error text =
     \<lparr> normalized_text = text, corrections = [], preserved_terms = [] \<rparr>"

section \<open>sbert\_service.py\<close>

text \<open>
  The service keeps no state between requests besides what is set when the module is
  loaded: the flag \<open>enhanced_mode_available\<close> (the evaluator and the scoring algorithm
  exist exactly when it is set) and the sentence-embedding model, \<open>None\<close> when it could
  not be loaded. The embedding model is external: it is a parameter giving the cosine
  similarity of two texts, or the exception raised. Logging, monitoring and timing have no
  effect on a response and are left out, and with them the stage times of the detailed
  breakdown.
\<close>

record service =
  enhanced_mode_available :: bool
  model :: "(string \<Rightarrow> string \<Rightarrow> py_error + real) option"

text \<open>The \<open>breakdown\<close> of a detailed response.\<close>

record detailed_breakdown =
  d_ensemble_score :: real
  d_model_scores :: "model_scores option"
  d_concept_coverage :: real
  d_key_concepts_found :: int
  d_total_key_concepts :: int
  d_changes_model_answer :: "string list"
  d_changes_student_answer :: "string list"
  d_technical_terms_found :: "string list"
  d_scoring_breakdown :: scoring_breakdown

text \<open>The JSON object of a response. A key that a response does not carry is \<open>False\<close>
  for \<open>fallback\<close> and \<open>None\<close> for \<open>error\<close> (here \<open>r_error\<close>), \<open>note\<close> (here \<open>r_note\<close>) and \<open>breakdown\<close>.\<close>

record response =
  similarity :: real
  score :: real
  confidence :: real
  needs_review :: bool
  fallback :: bool
  r_error :: "string option"
  r_note :: "string option"
  breakdown :: "detailed_breakdown option"

definition simple_similarity :: "string \<Rightarrow> string \<Rightarrow> real" where
  "simple_similarity text1 text2 =
     (if text1 = [] \<or> text2 = [] then 0.0
      else
        let words1 = set (py_split (py_lower text1));
            words2 = set (py_split (py_lower text2));
            words1 = {w \<in> words1. length w > 3};
            words2 = {w \<in> words2. length w > 3}
        in if words1 = {} \<or> words2 = {} then 0.0
           else let intersection = words1 \<inter> words2;
                    union = words1 \<union> words2
                in if union \<noteq> {} then real (card intersection) / real (card union) else 0.0)"

definition basic_evaluate :: "service \<Rightarrow> string \<Rightarrow> string \<Rightarrow> py_error + response" where
  "basic_evaluate svc model_answer student_answer =
     (case model svc of
        None \<Rightarrow>
          let sim = simple_similarity model_answer student_answer;
              sc = py_round (sim * 6) 2
          in Inr \<lparr> similarity = py_round sim 4, score = sc, confidence = 0.5,
                   needs_review = True, fallback = True, r_error = None, r_note = None,
                   breakdown = None \<rparr>
      | Some cos_sim \<Rightarrow>
          (case cos_sim model_answer student_answer of
             Inl e \<Rightarrow> Inl e
           | Inr sim \<Rightarrow>
               let sc = py_round (sim * 6) 2;
                   sc = max 0.0 (min 6.0 sc);
                   sim = max 0.0 (min 1.0 sim)
               in Inr \<lparr> similarity = py_round sim 4, score = sc, confidence = 0.8,
                        needs_review = False, fallback = True, r_error = None, r_note = None,
                        breakdown = None \<rparr>))"

text \<open>Stage 1 of \<open>enhanced_evaluate\<close>: both texts are normalised; if that raises, both
  fall back to the original text.\<close>

definition stage_preprocessing :: "string \<Rightarrow> string \<Rightarrow> preprocessed \<times> preprocessed" where
  "stage_preprocessing model_answer student_answer =
     (case preprocess model_answer of
        Inl e \<Rightarrow> (handle_preprocessing_error model_answer,
                  handle_preprocessing_error student_answer)
      | Inr model_preprocessed \<Rightarrow>
          (case preprocess student_answer of
             Inl e \<Rightarrow> (handle_preprocessing_error model_answer,
                       handle_preprocessing_error student_answer)
           | Inr student_preprocessed \<Rightarrow> (model_preprocessed, student_preprocessed)))"

text \<open>Stage 3: the ensemble score, the ensemble confidence and the model scores; if the
  ensemble raises, the fallback score 0.5 with confidence 0.3 and no model scores.\<close>

definition stage_ensemble :: "string \<Rightarrow> string \<Rightarrow> real \<times> real \<times> model_scores option" where
  "stage_ensemble model_text student_text =
     (case ensemble_evaluate model_text student_text of
        Inr ensemble_result \<Rightarrow>
          (weighted_score ensemble_result, e_confidence ensemble_result,
           e_model_scores ensemble_result)
      | Inl e \<Rightarrow> (0.5, 0.3, None))"

definition enhanced_evaluate :: "string \<Rightarrow> string \<Rightarrow> string \<Rightarrow> bool \<Rightarrow> py_error + response" where
  "enhanced_evaluate model_answer student_answer domain_name detailed =
     (case stage_preprocessing model_answer student_answer of
        (model_preprocessed, student_preprocessed) \<Rightarrow>
          (let model_text = normalized_text model_preprocessed;
               student_text = normalized_text student_preprocessed
           in (case analyze model_text of
                 Inl e \<Rightarrow> Inl e
               | Inr model_analysis \<Rightarrow>
                  (case analyze student_text of
                     Inl e \<Rightarrow> Inl e
                   | Inr student_analysis \<Rightarrow>
                      (let concept_coverage =
                             calculate_concept_coverage (concepts student_analysis)
                               (concepts model_analysis);
                           key_concepts_present =
                             py_int (concept_coverage
                                     * real (length (concepts model_analysis)));
                           total_key_concepts = int (length (concepts model_analysis))
                       in (case stage_ensemble model_text student_text of
                             (ensemble_score, ensemble_confidence, scores) \<Rightarrow>
                               (case calculate_final_score ensemble_score concept_coverage
                                       key_concepts_present total_key_concepts of
                                  Inl e \<Rightarrow> Inl e
                                | Inr scoring_result \<Rightarrow>
                                   (let final_similarity = s_similarity scoring_result;
                                        final_score = s_score scoring_result;
                                        final_confidence = s_confidence scoring_result;
                                        review = (final_confidence < 0.7);
                                        detail =
                                          (if detailed
                                           then Some
                                             \<lparr> d_ensemble_score = ensemble_score,
                                               d_model_scores = scores,
                                               d_concept_coverage = concept_coverage,
                                               d_key_concepts_found = key_concepts_present,
                                               d_total_key_concepts = total_key_concepts,
                                               d_changes_model_answer =
                                                 corrections model_preprocessed,
                                               d_changes_student_answer =
                                                 corrections student_preprocessed,
                                               d_technical_terms_found =
                                                 technical_terms student_analysis,
                                               d_scoring_breakdown =
                                                 s_breakdown scoring_result \<rparr>
                                           else None)
                                    in Inr \<lparr> similarity = final_similarity,
                                             score = final_score,
                                             confidence = final_confidence,
                                             needs_review = review,
                                             fallback = False, r_error = None,
                                             r_note = None, breakdown = detail \<rparr>))))))))"

text \<open>The decoded body of a request to \<open>/evaluate\<close>: the four keys the endpoint reads,
  \<open>None\<close> for a key that is absent. An empty body has none of them.\<close>

record request_data =
  req_model_answer :: "string option"
  req_student_answer :: "string option"
  req_domain :: "string option"
  req_detailed :: "bool option"

definition no_data :: "request_data \<Rightarrow> bool" where
  "no_data data \<longleftrightarrow>
     req_model_answer data = None \<and> req_student_answer data = None
     \<and> req_domain data = None \<and> req_detailed data = None"

text \<open>\<open>data.get(key, default)\<close>.\<close>

definition get_or :: "'a option \<Rightarrow> 'a \<Rightarrow> 'a" where
  "get_or entry default_value = (case entry of None \<Rightarrow> default_value | Some v \<Rightarrow> v)"

text \<open>What the endpoint sends back: a response with status 200, or an error message with
  status 400.\<close>

datatype reply = Reply response | BadRequest string

text \<open>The enhanced evaluation is tried first when it is available; if it is not, or if
  it raises, the basic evaluation runs.\<close>

definition run_evaluation :: "service \<Rightarrow> string \<Rightarrow> string \<Rightarrow> string \<Rightarrow> bool \<Rightarrow> py_error + response" where
  "run_evaluation svc model_answer student_answer domain_name detailed =
     (if enhanced_mode_available svc then
        (case enhanced_evaluate model_answer student_answer domain_name detailed of
           Inr result \<Rightarrow> Inr result
         | Inl e \<Rightarrow> basic_evaluate svc model_answer student_answer)
      else basic_evaluate svc model_answer student_answer)"

definition evaluate :: "service \<Rightarrow> request_data \<Rightarrow> reply" where
  "evaluate svc data =
     (if no_data data then BadRequest ''No data provided''
      else
        let model_answer = py_strip (get_or (req_model_answer data) []);
            student_answer = py_strip (get_or (req_student_answer data) []);
            domain_name = get_or (req_domain data) ''general'';
            detailed = get_or (req_detailed data) False
        in if model_answer = [] then
             Reply \<lparr> similarity = 0.0, score = 0.0, confidence = 0.0, needs_review = True,
                     fallback = False, r_error = Some ''Empty model answer'', r_note = None,
                     breakdown = None \<rparr>
           else if student_answer = [] then
             Reply \<lparr> similarity = 0.0, score = 0.0, confidence = 1.0, needs_review = False,
                     fallback = False, r_error = None,
                     r_note = Some ''No student answer provided'', breakdown = None \<rparr>
           else
             (case run_evaluation svc model_answer student_answer domain_name detailed of
                Inr result \<Rightarrow> Reply result
              | Inl e \<Rightarrow>
                  let sim = simple_similarity (get_or (req_model_answer data) [])
                              (get_or (req_student_answer data) []);
                      sc = py_round (sim * 6) 2
                  in Reply \<lparr> similarity = py_round sim 4, score = sc, confidence = 0.5,
                             needs_review = True, fallback = True,
                             r_error = Some (str_error e), r_note = None, breakdown = None \<rparr>))"

section \<open>Reference formulations\<close>

text \<open>The number of keywords of one table entry that occur in the lowercased text
  as substrings: the hit count by which the domains are compared.\<close>

definition keyword_hits :: "string \<Rightarrow> string list \<Rightarrow> int" where
  "keyword_hits text keywords =
     int (length (filter (\<lambda>keyword. py_in keyword (py_lower text)) keywords))"

text \<open>The score-stage confidence as the specification words it: a base of 0.7, plus 0.2
  for a coverage above 0.8 or else plus 0.1 for a coverage above 0.6, minus 0.2 for an
  ensemble score below 0.3, minus 0.3 when no key concept is present although some are
  expected, clamped to \<open>[0.3, 1.0]\<close>.\<close>

definition spec_score_confidence :: "real \<Rightarrow> real \<Rightarrow> int \<Rightarrow> int \<Rightarrow> real" where
  "spec_score_confidence ensemble_score concept_coverage key_concepts_present total_key_concepts =
     max 0.3 (min 1.0
       (0.7
        + (if concept_coverage > 0.8 then 0.2 else if concept_coverage > 0.6 then 0.1 else 0)
        - (if ensemble_score < 0.3 then 0.2 else 0)
        - (if key_concepts_present = 0 \<and> total_key_concepts > 0 then 0.3 else 0)))"

section \<open>Rounding\<close>

lemma round_half_even_bounds: "\<lfloor>x\<rfloor> \<le> round_half_even x \<and> round_half_even x \<le> \<lceil>x\<rceil>"
  unfolding round_half_even_def Let_def
  by (auto simp: ceiling_def) linarith+

lemma py_round_bounds:
  assumes "0 \<le> x" "x \<le> 1"
  shows "0 \<le> py_round x n \<and> py_round x n \<le> 1"
proof -
  let ?y = "x * 10 ^ n"
  have y0: "0 \<le> ?y" using assms by simp
  have y1: "?y \<le> 10 ^ n" using assms by (simp add: mult_left_le_one_le)
  have "0 \<le> \<lfloor>?y\<rfloor>" using y0 by simp
  then have lo: "0 \<le> round_half_even ?y" using round_half_even_bounds[of ?y] by linarith
  have "\<lceil>?y\<rceil> \<le> 10 ^ n" using y1 by (simp add: ceiling_le_iff)
  then have hi: "round_half_even ?y \<le> 10 ^ n" using round_half_even_bounds[of ?y] by linarith
  have "real_of_int (round_half_even ?y) \<le> 10 ^ n"
    using hi by (metis of_int_le_iff of_int_numeral of_int_power)
  then show ?thesis using lo by (simp add: py_round_def)
qed

lemma score_grid: "\<exists>n::int. max 0 (min 6 (py_round x 2)) = of_int n / 100"
proof -
  obtain k :: int where k: "py_round x 2 = of_int k / 100" by (auto simp: py_round_def)
  have "max 0 (min 6 (py_round x 2)) = of_int (max 0 (min 600 k)) / 100"
    unfolding k by (simp add: max_def min_def)
  then show ?thesis by blast
qed

section \<open>The ensemble stays in range\<close>

lemma np_var_nonneg: "0 \<le> np_var xs"
proof -
  have "0 \<le> sum_list (map (\<lambda>x. (x - m)\<^sup>2) xs)" for m :: real
    by (rule sum_list_nonneg) auto
  then show ?thesis
    by (simp add: np_var_def Let_def)
qed

lemma ensemble_confidence_bounds:
  assumes "0 \<le> v"
  shows "0 \<le> max 0.5 (1.0 - min v (1.0::real)) \<and> max 0.5 (1.0 - min v (1.0::real)) \<le> 1"
  using assms by (simp add: max_def min_def)

lemma ensemble_bounds:
  "\<exists>r. ensemble_evaluate m s = Inr r \<and> 0 \<le> weighted_score r \<and> weighted_score r \<le> 1
      \<and> 0 \<le> e_confidence r \<and> e_confidence r \<le> 1 \<and> 0 \<le> variance r"
proof (cases "m = [] \<or> s = []")
  case True
  then show ?thesis by (auto simp add: ensemble_evaluate_def)
next
  case False
  let ?scores = "[calculate_semantic_similarity m s, calculate_keyword_similarity m s,
      calculate_length_similarity m s, calculate_structure_similarity m s]"
  have v: "0 \<le> np_var ?scores" by (rule np_var_nonneg)
  show ?thesis
    using False v ensemble_confidence_bounds[OF v]
    by (simp add: ensemble_evaluate_def Let_def)
qed

section \<open>Properties of the score finalizer\<close>

lemma confidence_bounds:
  "0.3 \<le> calculate_confidence e c k t \<and> calculate_confidence e c k t \<le> 0.9"
  by (simp add: calculate_confidence_def Let_def)

lemma partial_credit_le:
  assumes "0 < k" "k \<le> t"
  shows "real_of_int k / real_of_int t * 0.3 \<le> 0.3"
proof -
  define q where "q = real_of_int k / real_of_int t"
  have "q \<le> 1" using assms by (simp add: q_def)
  then have "q * 0.3 \<le> 0.3" by simp
  then show ?thesis by (simp add: q_def)
qed

lemma partial_credit_step_bounds:
  assumes "0 \<le> a" "a \<le> 1" "k \<le> t"
  shows "\<exists>a'. partial_credit_step a k t = Inr a' \<and> 0 \<le> a' \<and> a' \<le> 1 \<and> a \<le> a'"
proof (cases "a < 0.5 \<and> 0 < k")
  case False
  then show ?thesis using assms by (auto simp: partial_credit_step_def)
next
  case True
  then have t: "0 < t" using assms by linarith
  have "real_of_int k / real_of_int t * 0.3 \<le> 0.3"
    using partial_credit_le True assms by blast
  then show ?thesis using True t assms by (auto simp: partial_credit_step_def Let_def)
qed

lemma partial_credit_step_mono:
  assumes "a1 \<le> a2" "k \<le> t"
  shows "\<exists>b1 b2. partial_credit_step a1 k t = Inr b1 \<and> partial_credit_step a2 k t = Inr b2
           \<and> b1 \<le> b2"
proof (cases "0 < k")
  case False
  then show ?thesis using assms by (auto simp: partial_credit_step_def)
next
  case True
  then have t: "t \<noteq> 0" using assms by linarith
  have "real_of_int k / real_of_int t * 0.3 \<le> 0.3"
    using partial_credit_le True assms by blast
  then show ?thesis using True t assms by (auto simp: partial_credit_step_def Let_def)
qed

lemma calculate_final_score_Inr:
  assumes "partial_credit_step (min (e + c * 0.15) 1) k t = Inr a"
  shows "\<exists>r. calculate_final_score e c k t = Inr r \<and> s_similarity r = a
     \<and> s_confidence r = calculate_confidence e c k t
     \<and> s_score r = max 0 (min 6 (py_round (a * 6) 2))
     \<and> b_adjusted_similarity (s_breakdown r) = py_round a 4
     \<and> b_confidence (s_breakdown r) = py_round (calculate_confidence e c k t) 4
     \<and> b_final_score (s_breakdown r) = s_score r"
  using assms by (simp add: calculate_final_score_def Let_def max_score_def)

section \<open>The context analyzer\<close>

lemma keyword_loop_eq:
  "keyword_loop low ks (sc, found) =
     (sc + int (length (filter (\<lambda>k. py_in k low) ks)), found @ filter (\<lambda>k. py_in k low) ks)"
  by (induction ks arbitrary: sc found) auto

lemma update_fresh: "k \<notin> fst ` set al \<Longrightarrow> AList.update k v al = al @ [(k, v)]"
  by (induction al) auto

lemma domain_loop_eq:
  assumes "distinct (map fst table)" and "fst ` set table \<inter> fst ` set scores = {}"
  shows "domain_loop low table (scores, found) =
     (scores @ map (\<lambda>(d, ks). (d, int (length (filter (\<lambda>k. py_in k low) ks)))) table,
      found @ concat (map (\<lambda>(d, ks). filter (\<lambda>k. py_in k low) ks) table))"
  using assms
proof (induction table arbitrary: scores found)
  case Nil
  then show ?case by simp
next
  case (Cons entry table)
  obtain d ks where entry: "entry = (d, ks)" by (cases entry)
  have fresh: "d \<notin> fst ` set scores" using Cons.prems(2) entry by auto
  have dist: "distinct (map fst table)" using Cons.prems(1) by simp
  have disj: "fst ` set table \<inter> fst ` set (scores @ [(d, v)]) = {}" for v
    using Cons.prems entry by auto
  show ?case
    using Cons.IH[OF dist disj]
    by (simp add: entry keyword_loop_eq update_fresh[OF fresh])
qed

lemma max_from_split:
  "\<exists>pre post. b # xs = pre @ max_from key b xs # post
     \<and> (\<forall>y\<in>set pre. key y < key (max_from key b xs))
     \<and> (\<forall>y\<in>set post. key y \<le> key (max_from key b xs))"
proof (induction xs arbitrary: b)
  case Nil
  have "[b] = [] @ max_from key b [] # []
     \<and> (\<forall>y\<in>set []. key y < key (max_from key b []))
     \<and> (\<forall>y\<in>set []. key y \<le> key (max_from key b []))" by simp
  then show ?case by blast
next
  case (Cons x xs)
  show ?case
  proof (cases "key b < key x")
    case True
    let ?r = "max_from key x xs"
    have r: "max_from key b (x # xs) = ?r" using True by simp
    from Cons.IH[of x] obtain pre post where s: "x # xs = pre @ ?r # post"
      "\<forall>y\<in>set pre. key y < key ?r" "\<forall>y\<in>set post. key y \<le> key ?r" by blast
    have "x \<in> set (pre @ ?r # post)" using s(1) by (metis list.set_intros(1))
    then have "key x \<le> key ?r" using s(2,3) by fastforce
    then have "key b < key ?r" using True by linarith
    then have "b # x # xs = (b # pre) @ ?r # post \<and> (\<forall>y\<in>set (b # pre). key y < key ?r)
       \<and> (\<forall>y\<in>set post. key y \<le> key ?r)" using s by simp
    then show ?thesis unfolding r by blast
  next
    case False
    let ?r = "max_from key b xs"
    have r: "max_from key b (x # xs) = ?r" using False by simp
    from Cons.IH[of b] obtain pre post where s: "b # xs = pre @ ?r # post"
      "\<forall>y\<in>set pre. key y < key ?r" "\<forall>y\<in>set post. key y \<le> key ?r" by blast
    show ?thesis
    proof (cases pre)
      case Nil
      have "b # xs = ?r # post" using s(1) unfolding Nil append_Nil .
      from this[unfolded list.inject] have eq: "b = ?r" "xs = post" by blast+
      have kb: "key b = key ?r" using eq(1) by (rule arg_cong)
      have kx: "key x \<le> key ?r" using False kb by linarith
      have "b # x # xs = [] @ ?r # (x # xs)" using eq(1) by (metis append_Nil)
      moreover have "\<forall>y\<in>set []. key y < key ?r" by simp
      moreover have "\<forall>y\<in>set (x # xs). key y \<le> key ?r"
        using kx s(3) unfolding eq(2) by simp
      ultimately show ?thesis unfolding r by blast
    next
      case (Cons p pre')
      have "b # xs = p # (pre' @ ?r # post)" using s(1) unfolding Cons append_Cons .
      from this[unfolded list.inject] have p: "p = b" "xs = pre' @ ?r # post" by blast+
      have "key b < key ?r" using s(2) Cons p(1) by simp
      then have kx: "key x < key ?r" using False by linarith
      have "b # x # xs = (b # x # pre') @ ?r # post" using p(2) by simp
      moreover have "\<forall>y\<in>set (b # x # pre'). key y < key ?r"
        using kx s(2) Cons p(1) by simp
      ultimately show ?thesis unfolding r using s(3) by blast
    qed
  qed
qed

lemma table_distinct: "distinct (map fst technical_keywords)"
  by (simp add: technical_keywords_def)

lemma domain_scores_eq:
  "domain_loop (py_lower text) technical_keywords ([], []) =
     (map (\<lambda>(d, ks). (d, keyword_hits text ks)) technical_keywords,
      concat (map (\<lambda>(d, ks). filter (\<lambda>k. py_in k (py_lower text)) ks) technical_keywords))"
  using domain_loop_eq[OF table_distinct, of "[]" "py_lower text" "[]"]
  by (simp add: keyword_hits_def)

lemma keyword_hits_nonneg: "0 \<le> keyword_hits text ks"
  by (simp add: keyword_hits_def)

lemma keyword_hits_empty_text:
  assumes "entry \<in> set technical_keywords"
  shows "keyword_hits [] (snd entry) = 0"
proof -
  have "[] \<notin> set (snd entry)"
    using assms by (auto simp add: technical_keywords_def)
  then have "filter (\<lambda>keyword. keyword = []) (snd entry) = []"
    by (auto simp add: filter_empty_conv)
  then show ?thesis by (simp add: keyword_hits_def py_lower_def)
qed

lemma analyze_domain:
  assumes "text \<noteq> []"
  shows "\<exists>p before entry after. analyze text = Inr p
     \<and> technical_keywords = before @ entry # after
     \<and> (\<forall>e\<in>set before. keyword_hits text (snd e) < keyword_hits text (snd entry))
     \<and> (\<forall>e\<in>set after. keyword_hits text (snd e) \<le> keyword_hits text (snd entry))
     \<and> domain p = (if keyword_hits text (snd entry) > 0 then fst entry else ''general'')
     \<and> technical_terms p =
         concat (map (\<lambda>(d, ks). filter (\<lambda>k. py_in k (py_lower text)) ks) technical_keywords)
     \<and> concepts p = remdups (technical_terms p)"
proof -
  define f where "f = (\<lambda>(d :: string, ks). (d, keyword_hits text ks))"
  obtain e0 rest where tab: "technical_keywords = e0 # rest"
    by (cases technical_keywords) (simp_all add: technical_keywords_def)
  define best where "best = max_from snd (f e0) (map f rest)"
  have pm: "py_max snd (map f technical_keywords) = Inr best"
    by (simp add: tab py_max_def best_def)
  from max_from_split[of "f e0" "map f rest" snd]
  obtain pre post where sp: "f e0 # map f rest = pre @ best # post"
    "\<forall>y\<in>set pre. snd y < snd best" "\<forall>y\<in>set post. snd y \<le> snd best"
    unfolding best_def by blast
  have "map f technical_keywords = pre @ best # post" using sp(1) by (simp add: tab)
  then obtain before entry after where dec:
    "technical_keywords = before @ entry # after" "map f before = pre" "f entry = best"
    "map f after = post"
    by (auto simp add: map_eq_append_conv map_eq_Cons_conv)
  have sb: "snd best = keyword_hits text (snd entry)" and fb: "fst best = fst entry"
    using dec(3) by (auto simp add: f_def split: prod.splits)
  have lt: "\<forall>e\<in>set before. keyword_hits text (snd e) < keyword_hits text (snd entry)"
    using sp(2) dec(2) sb by (auto simp add: f_def split: prod.splits)
  have le: "\<forall>e\<in>set after. keyword_hits text (snd e) \<le> keyword_hits text (snd entry)"
    using sp(3) dec(4) sb by (auto simp add: f_def split: prod.splits)
  have loop: "domain_loop (py_lower text) technical_keywords ([], []) =
     (map f technical_keywords,
      concat (map (\<lambda>(d, ks). filter (\<lambda>k. py_in k (py_lower text)) ks) technical_keywords))"
    unfolding f_def by (rule domain_scores_eq)
  have "\<exists>p. analyze text = Inr p
     \<and> domain p = (if snd best > 0 then fst best else ''general'')
     \<and> technical_terms p =
         concat (map (\<lambda>(d, ks). filter (\<lambda>k. py_in k (py_lower text)) ks) technical_keywords)
     \<and> concepts p = remdups (technical_terms p)"
    using assms by (simp add: analyze_def Let_def loop pm)
  then obtain p where p: "analyze text = Inr p"
    "domain p = (if snd best > 0 then fst best else ''general'')"
    "technical_terms p =
       concat (map (\<lambda>(d, ks). filter (\<lambda>k. py_in k (py_lower text)) ks) technical_keywords)"
    "concepts p = remdups (technical_terms p)"
    by blast
  have "domain p = (if keyword_hits text (snd entry) > 0 then fst entry else ''general'')"
    using p(2) unfolding sb fb .
  then show ?thesis using p(1) p(3) p(4) dec(1) lt le by blast
qed

section \<open>Texts\<close>

lemma isspace_lower_char: "py_isspace (lower_char c) = py_isspace c"
  by (auto simp add: py_isspace_def lower_char_def Let_def)

lemma isword_lower_char: "py_isword c \<Longrightarrow> py_isword (lower_char c)"
  by (auto simp add: py_isword_def lower_char_def Let_def)

lemma isword_not_isspace: "py_isword c \<Longrightarrow> \<not> py_isspace c"
  by (auto simp add: py_isword_def py_isspace_def Let_def)

lemma lower_char_period: "lower_char CHR ''.'' = CHR ''.''" "lower_char CHR '','' = CHR '',''"
  by (simp_all add: lower_char_def)

lemma period_not_isspace: "\<not> py_isspace CHR ''.''" "\<not> py_isspace CHR '',''"
  by (simp_all add: py_isspace_def)

lemma split_from_nonempty:
  "cur \<noteq> [] \<or> (\<exists>c\<in>set cs. \<not> py_isspace c) \<Longrightarrow> split_from cur cs \<noteq> []"
  by (induction cs arbitrary: cur) auto

lemma py_split_nonempty: "\<exists>c\<in>set t. \<not> py_isspace c \<Longrightarrow> py_split t \<noteq> []"
  by (simp add: py_split_def split_from_nonempty)

lemma py_split_lower_nonempty:
  assumes "\<exists>c\<in>set t. \<not> py_isspace c"
  shows "py_split (py_lower t) \<noteq> []"
proof -
  from assms obtain c where "c \<in> set t" "\<not> py_isspace c" by blast
  then have "lower_char c \<in> set (py_lower t)" "\<not> py_isspace (lower_char c)"
    by (simp_all add: py_lower_def isspace_lower_char)
  then show ?thesis using py_split_nonempty by blast
qed

lemma semantic_identical:
  assumes "\<exists>c\<in>set t. \<not> py_isspace c"
  shows "calculate_semantic_similarity t t = 1"
proof -
  have ne: "set (py_split (py_lower t)) \<noteq> {}"
    using py_split_lower_nonempty[OF assms] by simp
  then have "0 < card (set (py_split (py_lower t)))"
    by (simp add: card_gt_0_iff)
  then show ?thesis using ne
    by (simp add: calculate_semantic_similarity_def Let_def)
qed

lemma keyword_identical:
  assumes "\<exists>c\<in>set t. \<not> py_isspace c"
  shows "calculate_keyword_similarity t t = 1"
  using py_split_lower_nonempty[OF assms]
  by (simp add: calculate_keyword_similarity_def Let_def)

lemma length_identical: "calculate_length_similarity t t = 1"
  by (simp add: calculate_length_similarity_def Let_def)

lemma structure_identical: "calculate_structure_similarity t t = 1"
  by (simp add: calculate_structure_similarity_def Let_def)

lemma ensemble_identical:
  assumes "\<exists>c\<in>set t. \<not> py_isspace c"
  shows "ensemble_evaluate t t =
     Inr \<lparr> weighted_score = 1, e_confidence = 1,
           e_model_scores = Some \<lparr> semantic_similarity = 1, keyword_matching = 1,
                                   length_similarity = 1, structure_similarity = 1 \<rparr>,
           variance = 0 \<rparr>"
proof -
  have "t \<noteq> []" using assms by auto
  then show ?thesis
    by (simp add: ensemble_evaluate_def Let_def semantic_identical[OF assms]
        keyword_identical[OF assms] length_identical structure_identical np_var_def
        weight_semantic_def weight_keyword_def weight_length_def weight_structure_def)
qed

lemma dropWhile_keeps: "c \<in> set xs \<Longrightarrow> \<not> P c \<Longrightarrow> c \<in> set (dropWhile P xs)"
  by (induction xs) auto

lemma py_strip_keeps: "c \<in> set xs \<Longrightarrow> \<not> py_isspace c \<Longrightarrow> c \<in> set (py_strip xs)"
  by (simp add: py_strip_def dropWhile_keeps)

lemma sub_whitespace_keeps:
  "c \<in> set xs \<Longrightarrow> \<not> py_isspace c \<Longrightarrow> c \<in> set (sub_whitespace b xs)"
  by (induction xs arbitrary: b) auto

lemma preprocess_total: "\<exists>p. preprocess t = Inr p"
  by (simp add: preprocess_def Let_def)

lemma preprocess_keeps_word:
  assumes "preprocess t = Inr p"
    and "\<exists>c\<in>set t. py_isword c \<or> c = CHR ''.'' \<or> c = CHR '',''"
  shows "\<exists>c\<in>set (normalized_text p). \<not> py_isspace c"
proof -
  from assms(2) obtain c where c: "c \<in> set t" "py_isword c \<or> c = CHR ''.'' \<or> c = CHR '',''"
    by blast
  let ?d = "lower_char c"
  have keep: "py_isword ?d \<or> ?d = CHR ''.'' \<or> ?d = CHR '',''"
    using c(2) isword_lower_char lower_char_period by auto
  have ns: "\<not> py_isspace ?d"
    using keep isword_not_isspace period_not_isspace by auto
  have "?d \<in> set (py_lower t)" using c(1) by (simp add: py_lower_def)
  then have "?d \<in> set (sub_whitespace False (py_lower t))"
    using ns by (rule sub_whitespace_keeps)
  then have "?d \<in> set (sub_punctuation (sub_whitespace False (py_lower t)))"
    using keep by (auto simp add: sub_punctuation_def)
  then have "?d \<in> set (py_strip (sub_punctuation (sub_whitespace False (py_lower t))))"
    using ns by (rule py_strip_keeps)
  moreover have "t \<noteq> []" using c(1) by auto
  ultimately have "?d \<in> set (normalized_text p)"
    using assms(1) by (auto simp add: preprocess_def Let_def)
  then show ?thesis using ns by blast
qed

section \<open>The pipeline\<close>

lemma ratio_bounds: "(m::nat) \<le> n \<Longrightarrow> 0 \<le> real m / real n \<and> real m / real n \<le> 1"
  by (cases "n = 0") (simp_all add: divide_le_eq_1)

lemma analyze_total: "\<exists>p. analyze t = Inr p"
proof (cases "t = []")
  case True
  then show ?thesis by (simp add: analyze_def)
next
  case False
  from analyze_domain[OF False] show ?thesis by blast
qed

lemma coverage_bounds:
  "0 \<le> calculate_concept_coverage student_concepts model_concepts
   \<and> calculate_concept_coverage student_concepts model_concepts \<le> 1"
proof -
  have "card (set student_concepts \<inter> set model_concepts) \<le> card (set model_concepts)"
    by (rule card_mono) auto
  from ratio_bounds[OF this] show ?thesis
    by (simp add: calculate_concept_coverage_def Let_def)
qed

lemma coverage_identical: "calculate_concept_coverage cs cs = 1"
proof (cases "cs = []")
  case True
  then show ?thesis by (simp add: calculate_concept_coverage_def)
next
  case False
  then have "0 < card (set cs)" by (simp add: card_gt_0_iff)
  then show ?thesis using False by (simp add: calculate_concept_coverage_def Let_def)
qed

lemma py_int_bounds:
  assumes "0 \<le> x" "x \<le> 1"
  shows "0 \<le> py_int (x * real n) \<and> py_int (x * real n) \<le> int n"
proof -
  have lo: "0 \<le> x * real n" using assms by simp
  have hi: "x * real n \<le> real n" using assms by (simp add: mult_left_le_one_le)
  have "\<lfloor>x * real n\<rfloor> \<le> int n" using hi by (simp add: floor_le_iff)
  then show ?thesis using lo by (simp add: py_int_def)
qed

text \<open>Every stage of the pipeline returns: no stage raises, and the finalizer is called
  with a weighted score and a coverage in \<open>[0,1]\<close> and with
  \<open>0 \<le> key_concepts_present \<le> total_key_concepts\<close>.\<close>

lemma pipeline_stages:
  "\<exists>p q ma sa e sr.
     preprocess m = Inr p \<and> preprocess s = Inr q
   \<and> analyze (normalized_text p) = Inr ma \<and> analyze (normalized_text q) = Inr sa
   \<and> ensemble_evaluate (normalized_text p) (normalized_text q) = Inr e
   \<and> 0 \<le> weighted_score e \<and> weighted_score e \<le> 1
   \<and> 0 \<le> calculate_concept_coverage (concepts sa) (concepts ma)
   \<and> calculate_concept_coverage (concepts sa) (concepts ma) \<le> 1
   \<and> 0 \<le> py_int (calculate_concept_coverage (concepts sa) (concepts ma)
                   * real (length (concepts ma)))
   \<and> py_int (calculate_concept_coverage (concepts sa) (concepts ma)
             * real (length (concepts ma))) \<le> int (length (concepts ma))
   \<and> calculate_final_score (weighted_score e)
        (calculate_concept_coverage (concepts sa) (concepts ma))
        (py_int (calculate_concept_coverage (concepts sa) (concepts ma)
                 * real (length (concepts ma))))
        (int (length (concepts ma))) = Inr sr"
proof -
  obtain p where p: "preprocess m = Inr p" using preprocess_total by blast
  obtain q where q: "preprocess s = Inr q" using preprocess_total by blast
  obtain ma where ma: "analyze (normalized_text p) = Inr ma" using analyze_total by blast
  obtain sa where sa: "analyze (normalized_text q) = Inr sa" using analyze_total by blast
  obtain e where e: "ensemble_evaluate (normalized_text p) (normalized_text q) = Inr e"
    "0 \<le> weighted_score e" "weighted_score e \<le> 1"
    using ensemble_bounds by blast
  let ?cov = "calculate_concept_coverage (concepts sa) (concepts ma)"
  let ?k = "py_int (?cov * real (length (concepts ma)))"
  let ?t = "int (length (concepts ma))"
  have cov: "0 \<le> ?cov" "?cov \<le> 1" using coverage_bounds by simp_all
  have k: "0 \<le> ?k" "?k \<le> ?t" using py_int_bounds[OF cov] by simp_all
  let ?a = "min (weighted_score e + ?cov * 0.15) 1"
  have a: "0 \<le> ?a" "?a \<le> 1" using e(2) cov(1) by simp_all
  obtain a' where a': "partial_credit_step ?a ?k ?t = Inr a'"
    using partial_credit_step_bounds[OF a k(2)] by blast
  obtain sr where sr: "calculate_final_score (weighted_score e) ?cov ?k ?t = Inr sr"
    using calculate_final_score_Inr[OF a'] by blast
  from p q ma sa e cov k sr show ?thesis by blast
qed

lemma enhanced_evaluate_unfold:
  assumes "preprocess m = Inr p" and "preprocess s = Inr q"
    and "analyze (normalized_text p) = Inr ma" and "analyze (normalized_text q) = Inr sa"
    and "ensemble_evaluate (normalized_text p) (normalized_text q) = Inr e"
    and "calculate_final_score (weighted_score e) cov k t = Inr sr"
    and "cov = calculate_concept_coverage (concepts sa) (concepts ma)"
    and "k = py_int (cov * real (length (concepts ma)))"
    and "t = int (length (concepts ma))"
  shows "enhanced_evaluate m s d det =
       Inr \<lparr> similarity = s_similarity sr, score = s_score sr,
             confidence = s_confidence sr, needs_review = (s_confidence sr < 0.7),
             fallback = False, r_error = None, r_note = None,
             breakdown =
               (if det
                then Some \<lparr> d_ensemble_score = weighted_score e,
                       d_model_scores = e_model_scores e,
                       d_concept_coverage = cov,
                       d_key_concepts_found = k,
                       d_total_key_concepts = t,
                       d_changes_model_answer = corrections p,
                       d_changes_student_answer = corrections q,
                       d_technical_terms_found = technical_terms sa,
                       d_scoring_breakdown = s_breakdown sr \<rparr>
                else None) \<rparr>"
  using assms(6) unfolding assms(7,8,9)
  by (simp add: enhanced_evaluate_def stage_preprocessing_def stage_ensemble_def Let_def
      assms(1-5))

lemma enhanced_evaluate_summary:
  "\<exists>e cov k t sr bd.
       0 \<le> e \<and> e \<le> 1 \<and> 0 \<le> cov \<and> cov \<le> 1 \<and> 0 \<le> k \<and> k \<le> t
     \<and> calculate_final_score e cov k t = Inr sr
     \<and> enhanced_evaluate m s d det =
         Inr \<lparr> similarity = s_similarity sr, score = s_score sr,
               confidence = s_confidence sr, needs_review = (s_confidence sr < 0.7),
               fallback = False, r_error = None, r_note = None, breakdown = bd \<rparr>"
proof -
  from pipeline_stages[of m s] obtain p q ma sa e sr where
    st: "preprocess m = Inr p" "preprocess s = Inr q"
      "analyze (normalized_text p) = Inr ma" "analyze (normalized_text q) = Inr sa"
      "ensemble_evaluate (normalized_text p) (normalized_text q) = Inr e"
    and b: "0 \<le> weighted_score e" "weighted_score e \<le> 1"
      "0 \<le> calculate_concept_coverage (concepts sa) (concepts ma)"
      "calculate_concept_coverage (concepts sa) (concepts ma) \<le> 1"
      "0 \<le> py_int (calculate_concept_coverage (concepts sa) (concepts ma)
                   * real (length (concepts ma)))"
      "py_int (calculate_concept_coverage (concepts sa) (concepts ma)
             * real (length (concepts ma))) \<le> int (length (concepts ma))"
    and sr: "calculate_final_score (weighted_score e)
        (calculate_concept_coverage (concepts sa) (concepts ma))
        (py_int (calculate_concept_coverage (concepts sa) (concepts ma)
                 * real (length (concepts ma))))
        (int (length (concepts ma))) = Inr sr"
    by blast
  from enhanced_evaluate_unfold[OF st sr refl refl refl, of d det] b sr
  show ?thesis by blast
qed

lemma calculate_confidence_spec:
  "calculate_confidence e c k t = spec_score_confidence e c k t"
  unfolding calculate_confidence_def spec_score_confidence_def Let_def
  by (cases "c > 0.8"; cases "c > 0.6"; cases "e < 0.3"; cases "k = 0 \<and> t > 0") simp_all

lemma final_score_confidence:
  "calculate_final_score e c k t = Inr r \<Longrightarrow> s_confidence r = calculate_confidence e c k t"
  by (auto simp add: calculate_final_score_def Let_def split: sum.splits)

lemma basic_evaluate_review:
  "basic_evaluate svc m s = Inr r \<Longrightarrow> needs_review r = (confidence r < 0.7) \<and> confidence r \<noteq> 1"
  by (auto simp add: basic_evaluate_def Let_def split: option.splits sum.splits)

lemma enhanced_evaluate_review:
  assumes "enhanced_evaluate m s d det = Inr r"
  shows "needs_review r = (confidence r < 0.7) \<and> confidence r \<le> 0.9"
proof -
  from enhanced_evaluate_summary[of m s d det] obtain e cov k t sr bd where
    sr: "calculate_final_score e cov k t = Inr sr"
    and r: "enhanced_evaluate m s d det =
       Inr \<lparr> similarity = s_similarity sr, score = s_score sr,
             confidence = s_confidence sr, needs_review = (s_confidence sr < 0.7),
             fallback = False, r_error = None, r_note = None,
             breakdown = bd \<rparr>"
    by blast
  have c: "confidence r = s_confidence sr" "needs_review r = (s_confidence sr < 0.7)"
    using r assms by auto
  have "s_confidence sr \<le> 0.9"
    using final_score_confidence[OF sr] confidence_bounds[of e cov k t] by simp
  then show ?thesis unfolding c by simp
qed

lemma run_evaluation_review:
  assumes "run_evaluation svc m s d det = Inr r"
  shows "needs_review r = (confidence r < 0.7) \<and> confidence r \<noteq> 1"
proof (cases "enhanced_mode_available svc")
  case False
  then show ?thesis using assms basic_evaluate_review by (simp add: run_evaluation_def)
next
  case True
  show ?thesis
  proof (cases "enhanced_evaluate m s d det")
    case (Inl e)
    then show ?thesis using assms True basic_evaluate_review by (simp add: run_evaluation_def)
  next
    case (Inr r')
    then have "r' = r" using assms True by (simp add: run_evaluation_def)
    then show ?thesis using enhanced_evaluate_review[of m s d det r] Inr by auto
  qed
qed

lemma evaluate_review:
  assumes "evaluate svc data = Reply r"
  shows "needs_review r = (confidence r < 0.7)"
    and "confidence r = 1 \<longrightarrow>
           py_strip (get_or (req_model_answer data) []) \<noteq> []
         \<and> py_strip (get_or (req_student_answer data) []) = []"
  using assms run_evaluation_review
  by (auto simp add: evaluate_def Let_def split: if_splits sum.splits)

lemma final_score_identical:
  "\<exists>sr. calculate_final_score 1 1 (int n) (int n) = Inr sr
      \<and> s_similarity sr = 1 \<and> s_score sr = 6 \<and> s_confidence sr = 0.9"
  by (auto simp add: calculate_final_score_def partial_credit_step_def calculate_confidence_def
      py_round_def round_half_even_def max_score_def Let_def)

lemma enhanced_identical:
  assumes "\<exists>c\<in>set t. py_isword c \<or> c = CHR ''.'' \<or> c = CHR '',''"
  shows "\<exists>r. enhanced_evaluate t t d det = Inr r
     \<and> similarity r = 1 \<and> score r = 6 \<and> confidence r = 0.9 \<and> \<not> needs_review r"
proof -
  obtain p where p: "preprocess t = Inr p" using preprocess_total by blast
  have word: "\<exists>c\<in>set (normalized_text p). \<not> py_isspace c"
    using preprocess_keeps_word[OF p assms] .
  obtain a where a: "analyze (normalized_text p) = Inr a" using analyze_total by blast
  have e: "ensemble_evaluate (normalized_text p) (normalized_text p) =
     Inr \<lparr> weighted_score = 1, e_confidence = 1,
           e_model_scores = Some \<lparr> semantic_similarity = 1, keyword_matching = 1,
                                   length_similarity = 1, structure_similarity = 1 \<rparr>,
           variance = 0 \<rparr>"
    using ensemble_identical[OF word] .
  obtain sr where sr:
    "calculate_final_score 1 1 (int (length (concepts a))) (int (length (concepts a))) = Inr sr"
    "s_similarity sr = 1" "s_score sr = 6" "s_confidence sr = 0.9"
    using final_score_identical by blast
  show ?thesis
    by (simp add: enhanced_evaluate_def stage_preprocessing_def stage_ensemble_def Let_def
        p a e coverage_identical py_int_def sr)
qed

text \<open>One run of the pipeline, evaluated: the reference \<open>loop\<close> against the
  candidate \<open>x\<close>.\<close>

lemma ensemble_loop_x:
  "ensemble_evaluate ''loop'' ''x'' =
     Inr \<lparr> weighted_score = 0.2, e_confidence = 0.75,
           e_model_scores = Some \<lparr> semantic_similarity = 0, keyword_matching = 0,
                                   length_similarity = 1, structure_similarity = 1 \<rparr>,
           variance = 0.25 \<rparr>"
proof -
  have s: "py_split ''loop'' = [''loop'']" "py_split ''x'' = [''x'']"
    "py_lower ''loop'' = ''loop''" "py_lower ''x'' = ''x''"
    by (simp_all add: py_split_def py_lower_def lower_char_def py_isspace_def)
  have c: "count_sentences ''loop'' = 1" "count_sentences ''x'' = 1"
    by (simp_all add: count_sentences_def py_split_on_def py_strip_def py_isspace_def)
  show ?thesis
    by (simp add: ensemble_evaluate_def calculate_semantic_similarity_def
        calculate_keyword_similarity_def calculate_length_similarity_def
        calculate_structure_similarity_def s c np_var_def Let_def power2_eq_square
        weight_semantic_def weight_keyword_def weight_length_def weight_structure_def)
qed

lemma pipeline_loop_x:
  "enhanced_evaluate ''loop'' ''x'' ''general'' True =
     Inr \<lparr> similarity = 0.2, score = 1.2, confidence = 0.3, needs_review = True,
           fallback = False, r_error = None, r_note = None,
           breakdown = Some
             \<lparr> d_ensemble_score = 0.2,
               d_model_scores = Some \<lparr> semantic_similarity = 0, keyword_matching = 0,
                                       length_similarity = 1, structure_similarity = 1 \<rparr>,
               d_concept_coverage = 0, d_key_concepts_found = 0, d_total_key_concepts = 1,
               d_changes_model_answer = [], d_changes_student_answer = [],
               d_technical_terms_found = [],
               d_scoring_breakdown =
                 \<lparr> b_ensemble_score = 0.2, b_concept_coverage = 0, b_concept_bonus = 0,
                   b_adjusted_similarity = 0.2, b_final_score = 1.2, b_confidence = 0.3,
                   b_key_concepts_present = 0, b_total_key_concepts = 1 \<rparr> \<rparr> \<rparr>"
proof -
  have p: "preprocess ''loop'' = Inr \<lparr> normalized_text = ''loop'', corrections = [],
      preserved_terms = [] \<rparr>"
    "preprocess ''x'' = Inr \<lparr> normalized_text = ''x'', corrections = [],
      preserved_terms = [] \<rparr>"
    by (simp_all add: preprocess_def py_lower_def lower_char_def py_isspace_def py_isword_def
        sub_punctuation_def py_strip_def Let_def)
  have a: "analyze ''loop'' = Inr \<lparr> domain = ''CSE'', complexity = ''low'',
      concepts = [''loop''], technical_terms = [''loop'', ''loop''], word_count = 1,
      technical_score = 2 \<rparr>"
    "analyze ''x'' = Inr \<lparr> domain = ''general'', complexity = ''low'',
      concepts = [], technical_terms = [], word_count = 1, technical_score = 0 \<rparr>"
    by (simp_all add: analyze_def technical_keywords_def py_max_def py_lower_def
        lower_char_def py_split_def py_isspace_def Let_def)
  show ?thesis
    by (simp add: enhanced_evaluate_def stage_preprocessing_def stage_ensemble_def p a
        ensemble_loop_x calculate_concept_coverage_def py_int_def
        calculate_final_score_def partial_credit_step_def calculate_confidence_def
        py_round_def round_half_even_def max_score_def Let_def)
qed

section \<open>Verified properties\<close>

subsection \<open>Values stay in range\<close>

lemma final_score_in_range:
  assumes "0 \<le> ensemble_score" and "ensemble_score \<le> 1"
    and "0 \<le> concept_coverage" and "concept_coverage \<le> 1"
    and "key_concepts_present \<le> total_key_concepts"
  shows "\<exists>r. calculate_final_score ensemble_score concept_coverage
                  key_concepts_present total_key_concepts = Inr r
              \<and> 0 \<le> s_similarity r \<and> s_similarity r \<le> 1
              \<and> 0 \<le> s_confidence r \<and> s_confidence r \<le> 1
              \<and> 0 \<le> s_score r \<and> s_score r \<le> 6
              \<and> (\<exists>n::int. s_score r = of_int n / 100)
              \<and> 0 \<le> b_adjusted_similarity (s_breakdown r)
              \<and> b_adjusted_similarity (s_breakdown r) \<le> 1
              \<and> 0 \<le> b_confidence (s_breakdown r) \<and> b_confidence (s_breakdown r) \<le> 1
              \<and> b_final_score (s_breakdown r) = s_score r"
proof -
  let ?a = "min (ensemble_score + concept_coverage * 0.15) 1"
  have a: "0 \<le> ?a" "?a \<le> 1" using assms by simp_all
  obtain a' where a': "partial_credit_step ?a key_concepts_present total_key_concepts = Inr a'"
    "0 \<le> a'" "a' \<le> 1"
    using partial_credit_step_bounds[OF a assms(5)] by blast
  obtain r where r:
    "calculate_final_score ensemble_score concept_coverage
       key_concepts_present total_key_concepts = Inr r"
    "s_similarity r = a'"
    "s_confidence r = calculate_confidence ensemble_score concept_coverage
       key_concepts_present total_key_concepts"
    "s_score r = max 0 (min 6 (py_round (a' * 6) 2))"
    "b_adjusted_similarity (s_breakdown r) = py_round a' 4"
    "b_confidence (s_breakdown r) = py_round (calculate_confidence ensemble_score
       concept_coverage key_concepts_present total_key_concepts) 4"
    "b_final_score (s_breakdown r) = s_score r"
    using calculate_final_score_Inr[OF a'(1)] by blast
  let ?c = "calculate_confidence ensemble_score concept_coverage
              key_concepts_present total_key_concepts"
  have c: "0 \<le> ?c" "?c \<le> 1"
    using confidence_bounds[of ensemble_score concept_coverage
        key_concepts_present total_key_concepts] by simp_all
  have grid: "\<exists>n::int. s_score r = of_int n / 100"
    unfolding r(4) by (rule score_grid)
  have range: "0 \<le> s_score r \<and> s_score r \<le> 6"
    unfolding r(4) by simp
  show ?thesis
    using r(1) r(2) r(3) r(5) r(6) r(7) a'(2) a'(3) c grid range
      py_round_bounds[OF a'(2) a'(3), of 4] py_round_bounds[OF c, of 4]
    by auto
qed

lemma enhanced_evaluate_in_range:
  "\<exists>r. enhanced_evaluate m s d det = Inr r
      \<and> 0 \<le> similarity r \<and> similarity r \<le> 1
      \<and> 0 \<le> confidence r \<and> confidence r \<le> 1
      \<and> 0 \<le> score r \<and> score r \<le> 6 \<and> (\<exists>n::int. score r = of_int n / 100)"
proof -
  from enhanced_evaluate_summary[of m s d det] obtain e cov k t sr bd where
    b: "0 \<le> e" "e \<le> 1" "0 \<le> cov" "cov \<le> 1" "k \<le> t"
    and sr: "calculate_final_score e cov k t = Inr sr"
    and r: "enhanced_evaluate m s d det =
         Inr \<lparr> similarity = s_similarity sr, score = s_score sr,
               confidence = s_confidence sr, needs_review = (s_confidence sr < 0.7),
               fallback = False, r_error = None, r_note = None, breakdown = bd \<rparr>"
    by blast
  from final_score_in_range[OF b] sr
  have "0 \<le> s_similarity sr \<and> s_similarity sr \<le> 1
      \<and> 0 \<le> s_confidence sr \<and> s_confidence sr \<le> 1
      \<and> 0 \<le> s_score sr \<and> s_score sr \<le> 6 \<and> (\<exists>n::int. s_score sr = of_int n / 100)"
    by auto
  then show ?thesis unfolding r by simp
qed

text \<open>
  Claim C1. For every pair of texts the ensemble returns a weighted score and a confidence
  in \<open>[0,1]\<close>. For an ensemble score and a concept coverage in \<open>[0,1]\<close> and
  \<open>0 \<le> key_concepts_present \<le> total_key_concepts\<close>, \<open>calculate_final_score\<close> returns a
  result whose adjusted similarity and confidence lie in \<open>[0,1]\<close>, also as they are
  rounded into the breakdown, and whose final score lies in \<open>[0,6]\<close> and is a multiple of
  one hundredth. The response of the whole pipeline has its similarity and confidence in
  \<open>[0,1]\<close> and its score in \<open>[0,6]\<close>, a multiple of one hundredth.
\<close>

theorem evaluation_values_in_range:
  assumes "0 \<le> ensemble_score" and "ensemble_score \<le> 1"
    and "0 \<le> concept_coverage" and "concept_coverage \<le> 1"
    and "0 \<le> key_concepts_present" and "key_concepts_present \<le> total_key_concepts"
  shows "(\<exists>e. ensemble_evaluate model_text student_text = Inr e
              \<and> 0 \<le> weighted_score e \<and> weighted_score e \<le> 1
              \<and> 0 \<le> e_confidence e \<and> e_confidence e \<le> 1)
       \<and> (\<exists>r. calculate_final_score ensemble_score concept_coverage
                  key_concepts_present total_key_concepts = Inr r
              \<and> 0 \<le> s_similarity r \<and> s_similarity r \<le> 1
              \<and> 0 \<le> s_confidence r \<and> s_confidence r \<le> 1
              \<and> 0 \<le> s_score r \<and> s_score r \<le> 6
              \<and> (\<exists>n::int. s_score r = of_int n / 100)
              \<and> 0 \<le> b_adjusted_similarity (s_breakdown r)
              \<and> b_adjusted_similarity (s_breakdown r) \<le> 1
              \<and> 0 \<le> b_confidence (s_breakdown r) \<and> b_confidence (s_breakdown r) \<le> 1
              \<and> b_final_score (s_breakdown r) = s_score r)
       \<and> (\<exists>r. enhanced_evaluate model_answer student_answer domain_name detailed = Inr r
              \<and> 0 \<le> similarity r \<and> similarity r \<le> 1
              \<and> 0 \<le> confidence r \<and> confidence r \<le> 1
              \<and> 0 \<le> score r \<and> score r \<le> 6
              \<and> (\<exists>n::int. score r = of_int n / 100))"
proof (intro conjI)
  show "\<exists>e. ensemble_evaluate model_text student_text = Inr e
              \<and> 0 \<le> weighted_score e \<and> weighted_score e \<le> 1
              \<and> 0 \<le> e_confidence e \<and> e_confidence e \<le> 1"
    using ensemble_bounds[of model_text student_text] by blast
next
  show "\<exists>r. calculate_final_score ensemble_score concept_coverage
                  key_concepts_present total_key_concepts = Inr r
              \<and> 0 \<le> s_similarity r \<and> s_similarity r \<le> 1
              \<and> 0 \<le> s_confidence r \<and> s_confidence r \<le> 1
              \<and> 0 \<le> s_score r \<and> s_score r \<le> 6
              \<and> (\<exists>n::int. s_score r = of_int n / 100)
              \<and> 0 \<le> b_adjusted_similarity (s_breakdown r)
              \<and> b_adjusted_similarity (s_breakdown r) \<le> 1
              \<and> 0 \<le> b_confidence (s_breakdown r) \<and> b_confidence (s_breakdown r) \<le> 1
              \<and> b_final_score (s_breakdown r) = s_score r"
    using assms(1-4) assms(6) by (rule final_score_in_range)
next
  show "\<exists>r. enhanced_evaluate model_answer student_answer domain_name detailed = Inr r
              \<and> 0 \<le> similarity r \<and> similarity r \<le> 1
              \<and> 0 \<le> confidence r \<and> confidence r \<le> 1
              \<and> 0 \<le> score r \<and> score r \<le> 6
              \<and> (\<exists>n::int. score r = of_int n / 100)"
    by (rule enhanced_evaluate_in_range)
qed

text \<open>The theorem at the texts \<open>the cat\<close> and \<open>the dog\<close>, at an ensemble score and a
  coverage of one half with one of two key concepts present, where the final score is
  3.45, and at the pipeline run of \<open>loop\<close> against \<open>x\<close>.\<close>

theorem evaluation_values_in_range_witness:
  "(\<exists>e. ensemble_evaluate ''the cat'' ''the dog'' = Inr e
         \<and> 0 \<le> weighted_score e \<and> weighted_score e \<le> 1
         \<and> 0 \<le> e_confidence e \<and> e_confidence e \<le> 1)
   \<and> (\<exists>r. calculate_final_score 0.5 0.5 1 2 = Inr r
         \<and> s_score r = 3.45
         \<and> 0 \<le> s_similarity r \<and> s_similarity r \<le> 1
         \<and> 0 \<le> s_confidence r \<and> s_confidence r \<le> 1
         \<and> 0 \<le> s_score r \<and> s_score r \<le> 6
         \<and> (\<exists>n::int. s_score r = of_int n / 100)
         \<and> 0 \<le> b_adjusted_similarity (s_breakdown r)
         \<and> b_adjusted_similarity (s_breakdown r) \<le> 1
         \<and> 0 \<le> b_confidence (s_breakdown r) \<and> b_confidence (s_breakdown r) \<le> 1
         \<and> b_final_score (s_breakdown r) = s_score r)
   \<and> (\<exists>r. enhanced_evaluate ''loop'' ''x'' ''general'' True = Inr r
         \<and> 0 \<le> similarity r \<and> similarity r \<le> 1
         \<and> 0 \<le> confidence r \<and> confidence r \<le> 1
         \<and> 0 \<le> score r \<and> score r \<le> 6
         \<and> (\<exists>n::int. score r = of_int n / 100))"
proof -
  have v: "\<forall>r. calculate_final_score 0.5 0.5 1 2 = Inr r \<longrightarrow> s_score r = 3.45"
    by (auto simp add: calculate_final_score_def partial_credit_step_def py_round_def
        round_half_even_def max_score_def Let_def)
  from evaluation_values_in_range [of "0.5" "0.5" 1 2 "''the cat''" "''the dog''"
      "''loop''" "''x''" "''general''" True] v
  show ?thesis by auto
qed

subsection \<open>The review flag\<close>

text \<open>
  Claim C2. The score-stage confidence computed by the code is the one the specification
  words: 0.7, plus 0.2 for a coverage above 0.8 or else plus 0.1 for a coverage above
  0.6, minus 0.2 for an ensemble score below 0.3, minus 0.3 when no key concept is present
  although some are expected, clamped to \<open>[0.3, 1.0]\<close>. Every run of the pipeline returns
  a response; its confidence is that score-stage confidence of the ensemble score, the
  coverage and the two concept counts which the detailed breakdown reports, its
  \<open>needs_review\<close> flag is set exactly when this confidence is below 0.7, and without the
  detailed breakdown the response is otherwise the same. Every response of the endpoint has
  \<open>needs_review\<close> set exactly when its confidence is below 0.7.
\<close>

theorem needs_review_iff_low_score_confidence:
  "calculate_confidence ensemble_score concept_coverage key_concepts_present total_key_concepts
     = spec_score_confidence ensemble_score concept_coverage key_concepts_present
         total_key_concepts
   \<and> (\<exists>r b. enhanced_evaluate model_answer student_answer domain_name True = Inr r
          \<and> breakdown r = Some b
          \<and> enhanced_evaluate model_answer student_answer domain_name False
              = Inr (r \<lparr> breakdown := None \<rparr>)
          \<and> needs_review r = (confidence r < 0.7)
          \<and> confidence r = spec_score_confidence (d_ensemble_score b) (d_concept_coverage b)
                             (d_key_concepts_found b) (d_total_key_concepts b))
   \<and> (\<forall>r. evaluate svc data = Reply r \<longrightarrow> needs_review r = (confidence r < 0.7))"
proof (intro conjI)
  show "calculate_confidence ensemble_score concept_coverage key_concepts_present
          total_key_concepts
        = spec_score_confidence ensemble_score concept_coverage key_concepts_present
            total_key_concepts"
    by (rule calculate_confidence_spec)
next
  from pipeline_stages[of model_answer student_answer]
  obtain p q ma sa e sr where
    st: "preprocess model_answer = Inr p" "preprocess student_answer = Inr q"
      "analyze (normalized_text p) = Inr ma" "analyze (normalized_text q) = Inr sa"
      "ensemble_evaluate (normalized_text p) (normalized_text q) = Inr e"
    and sr: "calculate_final_score (weighted_score e)
        (calculate_concept_coverage (concepts sa) (concepts ma))
        (py_int (calculate_concept_coverage (concepts sa) (concepts ma)
                 * real (length (concepts ma))))
        (int (length (concepts ma))) = Inr sr"
    by blast
  let ?cov = "calculate_concept_coverage (concepts sa) (concepts ma)"
  let ?k = "py_int (?cov * real (length (concepts ma)))"
  let ?t = "int (length (concepts ma))"
  let ?b = "\<lparr> d_ensemble_score = weighted_score e,
             d_model_scores = e_model_scores e,
             d_concept_coverage = ?cov,
             d_key_concepts_found = ?k,
             d_total_key_concepts = ?t,
             d_changes_model_answer = corrections p,
             d_changes_student_answer = corrections q,
             d_technical_terms_found = technical_terms sa,
             d_scoring_breakdown = s_breakdown sr \<rparr>"
  let ?r = "\<lparr> similarity = s_similarity sr, score = s_score sr,
             confidence = s_confidence sr, needs_review = (s_confidence sr < 0.7),
             fallback = False, r_error = None, r_note = None,
             breakdown = Some ?b \<rparr>"
  have t: "enhanced_evaluate model_answer student_answer domain_name True = Inr ?r"
    using enhanced_evaluate_unfold[OF st sr refl refl refl, of domain_name True] by simp
  have f: "enhanced_evaluate model_answer student_answer domain_name False
             = Inr (?r \<lparr> breakdown := None \<rparr>)"
    using enhanced_evaluate_unfold[OF st sr refl refl refl, of domain_name False] by simp
  have c: "confidence ?r = spec_score_confidence (d_ensemble_score ?b)
             (d_concept_coverage ?b) (d_key_concepts_found ?b) (d_total_key_concepts ?b)"
    using final_score_confidence[OF sr] by (simp add: calculate_confidence_spec)
  have n: "needs_review ?r = (confidence ?r < 0.7)" by simp
  have bd: "breakdown ?r = Some ?b" by simp
  from t bd f n c
  show "\<exists>r b. enhanced_evaluate model_answer student_answer domain_name True = Inr r
          \<and> breakdown r = Some b
          \<and> enhanced_evaluate model_answer student_answer domain_name False
              = Inr (r \<lparr> breakdown := None \<rparr>)
          \<and> needs_review r = (confidence r < 0.7)
          \<and> confidence r = spec_score_confidence (d_ensemble_score b) (d_concept_coverage b)
                             (d_key_concepts_found b) (d_total_key_concepts b)"
    by blast
next
  show "\<forall>r. evaluate svc data = Reply r \<longrightarrow> needs_review r = (confidence r < 0.7)"
    using evaluate_review(1) by blast
qed

text \<open>The theorem at the run of \<open>loop\<close> against \<open>x\<close>: the ensemble's own confidence is
  0.75, the response carries the score-stage confidence 0.3 and asks for a review.\<close>

theorem needs_review_iff_low_score_confidence_witness:
  "spec_score_confidence 0.2 0 0 1 = 0.3
   \<and> ensemble_evaluate ''loop'' ''x'' =
       Inr \<lparr> weighted_score = 0.2, e_confidence = 0.75,
             e_model_scores = Some \<lparr> semantic_similarity = 0, keyword_matching = 0,
                                     length_similarity = 1, structure_similarity = 1 \<rparr>,
             variance = 0.25 \<rparr>
   \<and> (\<exists>r b. enhanced_evaluate ''loop'' ''x'' ''general'' True = Inr r
          \<and> breakdown r = Some b
          \<and> d_ensemble_score b = 0.2 \<and> d_concept_coverage b = 0
          \<and> d_key_concepts_found b = 0 \<and> d_total_key_concepts b = 1
          \<and> confidence r = 0.3 \<and> needs_review r
          \<and> needs_review r = (confidence r < 0.7)
          \<and> confidence r = spec_score_confidence (d_ensemble_score b) (d_concept_coverage b)
                             (d_key_concepts_found b) (d_total_key_concepts b))
   \<and> (\<exists>r. evaluate \<lparr> enhanced_mode_available = True, model = None \<rparr>
             \<lparr> req_model_answer = Some ''loop'', req_student_answer = Some ''x'',
               req_domain = None, req_detailed = Some True \<rparr> = Reply r
          \<and> needs_review r = (confidence r < 0.7))"
proof -
  have s: "spec_score_confidence 0.2 0 0 1 = 0.3"
    by (simp add: spec_score_confidence_def)
  have ev: "evaluate \<lparr> enhanced_mode_available = True, model = None \<rparr>
             \<lparr> req_model_answer = Some ''loop'', req_student_answer = Some ''x'',
               req_domain = None, req_detailed = Some True \<rparr>
      = (case enhanced_evaluate ''loop'' ''x'' ''general'' True of
           Inr result \<Rightarrow> Reply result
         | Inl e \<Rightarrow> BadRequest [])"
    by (simp add: evaluate_def no_data_def get_or_def run_evaluation_def py_strip_def
        py_isspace_def pipeline_loop_x)
  from needs_review_iff_low_score_confidence [of "0.2" 0 0 1 "''loop''" "''x''" "''general''"
      "\<lparr> enhanced_mode_available = True, model = None \<rparr>"
      "\<lparr> req_model_answer = Some ''loop'', req_student_answer = Some ''x'',
         req_domain = None, req_detailed = Some True \<rparr>"]
  show ?thesis
    by (simp add: s ev pipeline_loop_x ensemble_loop_x)
qed

subsection \<open>Empty texts\<close>

text \<open>
  Claim C3. A request whose reference text is empty, or only whitespace, is answered at
  once with similarity 0, score 0, confidence 0 and \<open>needs_review\<close> set, whatever the
  candidate and whatever the state of the service: no stage of the pipeline contributes to
  the reply. A request with a reference that is not empty and a candidate that is empty,
  only whitespace or absent is answered at once with similarity 0, score 0, confidence 1.0
  and \<open>needs_review\<close> not set.
\<close>

theorem empty_text_bypass:
  "(req_model_answer data = Some reference \<and> py_strip reference = [] \<longrightarrow>
      evaluate svc data =
        Reply \<lparr> similarity = 0, score = 0, confidence = 0, needs_review = True,
                fallback = False, r_error = Some ''Empty model answer'', r_note = None,
                breakdown = None \<rparr>)
   \<and> (req_model_answer data = Some reference \<and> py_strip reference \<noteq> []
        \<and> py_strip (get_or (req_student_answer data) []) = [] \<longrightarrow>
      evaluate svc data =
        Reply \<lparr> similarity = 0, score = 0, confidence = 1.0, needs_review = False,
                fallback = False, r_error = None,
                r_note = Some ''No student answer provided'', breakdown = None \<rparr>)"
  by (auto simp add: evaluate_def no_data_def get_or_def Let_def)

text \<open>The theorem at an empty reference with a candidate, and at the reference
  \<open>algorithm complexity analysis\<close> with an empty candidate.\<close>

theorem empty_text_bypass_witness:
  "evaluate \<lparr> enhanced_mode_available = True, model = None \<rparr>
     \<lparr> req_model_answer = Some [], req_student_answer = Some ''an answer'',
       req_domain = None, req_detailed = None \<rparr> =
     Reply \<lparr> similarity = 0, score = 0, confidence = 0, needs_review = True,
             fallback = False, r_error = Some ''Empty model answer'', r_note = None,
             breakdown = None \<rparr>
   \<and> evaluate \<lparr> enhanced_mode_available = True, model = None \<rparr>
       \<lparr> req_model_answer = Some ''algorithm complexity analysis'',
         req_student_answer = Some [], req_domain = None, req_detailed = None \<rparr> =
     Reply \<lparr> similarity = 0, score = 0, confidence = 1.0, needs_review = False,
             fallback = False, r_error = None,
             r_note = Some ''No student answer provided'', breakdown = None \<rparr>"
  using empty_text_bypass [of "\<lparr> req_model_answer = Some [],
        req_student_answer = Some ''an answer'', req_domain = None, req_detailed = None \<rparr>"
      "[]" "\<lparr> enhanced_mode_available = True, model = None \<rparr>"]
    empty_text_bypass [of "\<lparr> req_model_answer = Some ''algorithm complexity analysis'',
        req_student_answer = Some [], req_domain = None, req_detailed = None \<rparr>"
      "''algorithm complexity analysis''"
      "\<lparr> enhanced_mode_available = True, model = None \<rparr>"]
  by (simp add: py_strip_def py_isspace_def get_or_def)

subsection \<open>Identical texts\<close>

text \<open>
  Claim C4, as the code has it. The claim fails for a text without a word. The ensemble on
  a text of one space against itself finds no words: the semantic and the keyword signal
  are 0, the weighted score is 0.2. The pipeline on \<open>!\<close> against itself normalizes both
  texts to the empty text, the ensemble short-circuits to 0, and the final score is 0.90.
\<close>

theorem identical_texts_counterexample:
  "ensemble_evaluate '' '' '' '' =
     Inr \<lparr> weighted_score = 0.2, e_confidence = 0.75,
           e_model_scores = Some \<lparr> semantic_similarity = 0, keyword_matching = 0,
                                   length_similarity = 1, structure_similarity = 1 \<rparr>,
           variance = 0.25 \<rparr>
   \<and> enhanced_evaluate ''!'' ''!'' ''general'' False =
     Inr \<lparr> similarity = 0.15, score = 0.9, confidence = 0.7, needs_review = False,
           fallback = False, r_error = None, r_note = None, breakdown = None \<rparr>"
proof
  have s: "py_split '' '' = []" "py_split (py_lower '' '') = []"
    by (simp_all add: py_split_def py_lower_def lower_char_def py_isspace_def)
  have c: "count_sentences '' '' = 0"
    by (simp add: count_sentences_def py_split_on_def py_strip_def py_isspace_def)
  show "ensemble_evaluate '' '' '' '' =
     Inr \<lparr> weighted_score = 0.2, e_confidence = 0.75,
           e_model_scores = Some \<lparr> semantic_similarity = 0, keyword_matching = 0,
                                   length_similarity = 1, structure_similarity = 1 \<rparr>,
           variance = 0.25 \<rparr>"
    by (simp add: ensemble_evaluate_def calculate_semantic_similarity_def
        calculate_keyword_similarity_def calculate_length_similarity_def
        calculate_structure_similarity_def s c np_var_def Let_def power2_eq_square
        weight_semantic_def weight_keyword_def weight_length_def weight_structure_def)
next
  have p: "preprocess ''!'' = Inr \<lparr> normalized_text = [],
      corrections = [''Removed special punctuation''], preserved_terms = [] \<rparr>"
    by (simp add: preprocess_def py_lower_def lower_char_def py_isspace_def py_isword_def
        sub_punctuation_def py_strip_def Let_def)
  show "enhanced_evaluate ''!'' ''!'' ''general'' False =
     Inr \<lparr> similarity = 0.15, score = 0.9, confidence = 0.7, needs_review = False,
           fallback = False, r_error = None, r_note = None, breakdown = None \<rparr>"
    by (simp add: enhanced_evaluate_def stage_preprocessing_def stage_ensemble_def p
        analyze_def calculate_concept_coverage_def py_int_def ensemble_evaluate_def
        calculate_final_score_def partial_credit_step_def calculate_confidence_def
        py_round_def round_half_even_def max_score_def Let_def)
qed

text \<open>
  Claim C4, amended. For every text with at least one character that is not whitespace,
  the ensemble on the text against itself gives all four signals 1.0, the weighted score
  1.0, the variance 0 and the confidence 1.0. For every text with at least one word
  character, period or comma (the characters other than whitespace that the normalizer
  keeps), the pipeline on the text against itself answers similarity 1.0, score 6.00,
  confidence 0.9 and \<open>needs_review\<close> not set.
\<close>

theorem identical_texts:
  "((\<exists>c\<in>set t. \<not> py_isspace c) \<longrightarrow>
      ensemble_evaluate t t =
        Inr \<lparr> weighted_score = 1, e_confidence = 1,
              e_model_scores = Some \<lparr> semantic_similarity = 1, keyword_matching = 1,
                                      length_similarity = 1, structure_similarity = 1 \<rparr>,
              variance = 0 \<rparr>)
   \<and> ((\<exists>c\<in>set t. py_isword c \<or> c = CHR ''.'' \<or> c = CHR '','') \<longrightarrow>
      (\<exists>r. enhanced_evaluate t t domain_name detailed = Inr r
          \<and> similarity r = 1 \<and> score r = 6 \<and> confidence r = 0.9 \<and> \<not> needs_review r))"
  using ensemble_identical enhanced_identical by blast

text \<open>The theorem at the text \<open>the quick brown fox jumps\<close>.\<close>

theorem identical_texts_witness:
  "ensemble_evaluate ''the quick brown fox jumps'' ''the quick brown fox jumps'' =
     Inr \<lparr> weighted_score = 1, e_confidence = 1,
           e_model_scores = Some \<lparr> semantic_similarity = 1, keyword_matching = 1,
                                   length_similarity = 1, structure_similarity = 1 \<rparr>,
           variance = 0 \<rparr>
   \<and> (\<exists>r. enhanced_evaluate ''the quick brown fox jumps'' ''the quick brown fox jumps''
            ''general'' False = Inr r
          \<and> similarity r = 1 \<and> score r = 6 \<and> confidence r = 0.9 \<and> \<not> needs_review r)"
  using identical_texts [of "''the quick brown fox jumps''" "''general''" False]
  by (simp add: py_isspace_def py_isword_def)

subsection \<open>Domain detection\<close>

text \<open>
  Claim C5. The table lists the domains in the order CSE, ECE, EEE, Mechanical, Civil,
  programming, mathematics, science. For every text \<open>analyze\<close> returns a profile. Its
  domain is \<open>general\<close> when no keyword of any domain occurs in the lowercased text.
  Otherwise its domain is that of a table entry such that every entry before it has
  strictly fewer hits and every entry after it has at most as many: the first entry, in
  table order, with the maximal hit count.
\<close>

theorem analyze_first_max_domain:
  "map fst technical_keywords =
     [''CSE'', ''ECE'', ''EEE'', ''Mechanical'', ''Civil'', ''programming'', ''mathematics'',
      ''science'']
   \<and> (\<exists>p. analyze text = Inr p
        \<and> (if \<forall>entry\<in>set technical_keywords. keyword_hits text (snd entry) = 0
           then domain p = ''general''
           else \<exists>before keywords after.
                  technical_keywords = before @ (domain p, keywords) # after
                \<and> (\<forall>entry\<in>set before.
                      keyword_hits text (snd entry) < keyword_hits text keywords)
                \<and> (\<forall>entry\<in>set after.
                      keyword_hits text (snd entry) \<le> keyword_hits text keywords)))"
proof
  show "map fst technical_keywords =
     [''CSE'', ''ECE'', ''EEE'', ''Mechanical'', ''Civil'', ''programming'', ''mathematics'',
      ''science'']"
    by (simp add: technical_keywords_def)
next
  show "\<exists>p. analyze text = Inr p
        \<and> (if \<forall>entry\<in>set technical_keywords. keyword_hits text (snd entry) = 0
           then domain p = ''general''
           else \<exists>before keywords after.
                  technical_keywords = before @ (domain p, keywords) # after
                \<and> (\<forall>entry\<in>set before.
                      keyword_hits text (snd entry) < keyword_hits text keywords)
                \<and> (\<forall>entry\<in>set after.
                      keyword_hits text (snd entry) \<le> keyword_hits text keywords))"
  proof (cases "text = []")
    case True
    then show ?thesis
      using keyword_hits_empty_text by (simp add: analyze_def)
  next
    case False
    from analyze_domain[OF False]
    obtain p before entry after where a: "analyze text = Inr p"
      "technical_keywords = before @ entry # after"
      "\<forall>e\<in>set before. keyword_hits text (snd e) < keyword_hits text (snd entry)"
      "\<forall>e\<in>set after. keyword_hits text (snd e) \<le> keyword_hits text (snd entry)"
      "domain p = (if keyword_hits text (snd entry) > 0 then fst entry else ''general'')"
      by blast
    show ?thesis
    proof (cases "keyword_hits text (snd entry) > 0")
      case True
      then have d: "domain p = fst entry" using a(5) by simp
      have "entry \<in> set technical_keywords" by (subst a(2)) simp
      then have ne: "\<not> (\<forall>entry\<in>set technical_keywords. keyword_hits text (snd entry) = 0)"
        using True by force
      have "technical_keywords = before @ (domain p, snd entry) # after"
        using a(2) d by simp
      then show ?thesis using a(1) a(3) a(4) ne by auto
    next
      case False
      then have z: "keyword_hits text (snd entry) = 0"
        using keyword_hits_nonneg[of "text" "snd entry"] by linarith
      have "\<forall>e\<in>set technical_keywords. keyword_hits text (snd e) = 0"
      proof
        fix e assume "e \<in> set technical_keywords"
        then have "e \<in> set (before @ entry # after)" using a(2) by metis
        then have "e \<in> set before \<or> e = entry \<or> e \<in> set after" by auto
        then have "keyword_hits text (snd e) \<le> 0" using a(3) a(4) z by force
        then show "keyword_hits text (snd e) = 0"
          using keyword_hits_nonneg[of "text" "snd e"] by linarith
      qed
      then show ?thesis using a(1) a(5) z by simp
    qed
  qed
qed

text \<open>The theorem at the text \<open>voltage\<close>: ECE and EEE both have one hit, and the domain
  is ECE, the earlier of the two.\<close>

theorem analyze_first_max_domain_witness:
  "\<exists>p. analyze ''voltage'' = Inr p \<and> domain p = ''ECE''
      \<and> (\<exists>before keywords after.
             technical_keywords = before @ (''ECE'', keywords) # after
           \<and> keyword_hits ''voltage'' keywords = 1
           \<and> (\<forall>entry\<in>set before.
                 keyword_hits ''voltage'' (snd entry) < keyword_hits ''voltage'' keywords)
           \<and> (\<forall>entry\<in>set after.
                 keyword_hits ''voltage'' (snd entry) \<le> keyword_hits ''voltage'' keywords))"
proof -
  have a: "analyze ''voltage'' =
     Inr \<lparr> domain = ''ECE'', complexity = ''low'', concepts = [''voltage''],
           technical_terms = [''voltage'', ''voltage''], word_count = 1,
           technical_score = 2 \<rparr>"
    by (simp add: analyze_def technical_keywords_def py_max_def py_lower_def lower_char_def
        py_split_def py_isspace_def Let_def)
  have h: "keyword_hits ''voltage'' (snd (technical_keywords ! 1)) = 1"
    by (simp add: keyword_hits_def technical_keywords_def py_lower_def lower_char_def)
  have m: "technical_keywords ! 1 \<in> set technical_keywords"
    by (simp add: technical_keywords_def)
  have ne: "\<not> (\<forall>entry\<in>set technical_keywords. keyword_hits ''voltage'' (snd entry) = 0)"
    using h m by force
  from analyze_first_max_domain [of "''voltage''"] a ne
  obtain before kws after where d:
    "technical_keywords = before @ (''ECE'', kws) # after"
    "\<forall>entry\<in>set before.
        keyword_hits ''voltage'' (snd entry) < keyword_hits ''voltage'' kws"
    "\<forall>entry\<in>set after.
        keyword_hits ''voltage'' (snd entry) \<le> keyword_hits ''voltage'' kws"
    by auto
  have "(''ECE'', kws) \<in> set technical_keywords" by (subst d(1)) simp
  then have "kws = snd (technical_keywords ! 1)"
    by (auto simp add: technical_keywords_def)
  then have "keyword_hits ''voltage'' kws = 1" using h by simp
  then have "\<exists>before keywords after.
             technical_keywords = before @ (''ECE'', keywords) # after
           \<and> keyword_hits ''voltage'' keywords = 1
           \<and> (\<forall>entry\<in>set before.
                 keyword_hits ''voltage'' (snd entry) < keyword_hits ''voltage'' keywords)
           \<and> (\<forall>entry\<in>set after.
                 keyword_hits ''voltage'' (snd entry) \<le> keyword_hits ''voltage'' keywords)"
    using d by blast
  then show ?thesis by (simp add: a)
qed

subsection \<open>Monotonicity in the coverage\<close>

text \<open>
  Claim C6, as the code has it. The claim fails when more key concepts are reported present
  than expected. With an ensemble score of 0.4 and 2 of 1 key concepts, a coverage of 0
  gives the adjusted similarity 0.6 (the partial credit), a coverage of 1 gives 0.55.
\<close>

theorem coverage_monotone_counterexample:
  "calculate_final_score 0.4 0 2 1 =
     Inr \<lparr> s_similarity = 0.6, s_score = 3.6, s_confidence = 0.7,
           s_breakdown = \<lparr> b_ensemble_score = 0.4, b_concept_coverage = 0,
             b_concept_bonus = 0, b_adjusted_similarity = 0.6, b_final_score = 3.6,
             b_confidence = 0.7, b_key_concepts_present = 2, b_total_key_concepts = 1 \<rparr> \<rparr>
   \<and> calculate_final_score 0.4 1 2 1 =
     Inr \<lparr> s_similarity = 0.55, s_score = 3.3, s_confidence = 0.9,
           s_breakdown = \<lparr> b_ensemble_score = 0.4, b_concept_coverage = 1,
             b_concept_bonus = 0.15, b_adjusted_similarity = 0.55, b_final_score = 3.3,
             b_confidence = 0.9, b_key_concepts_present = 2, b_total_key_concepts = 1 \<rparr> \<rparr>"
  by (simp add: calculate_final_score_def partial_credit_step_def calculate_confidence_def
      py_round_def round_half_even_def max_score_def Let_def)

text \<open>
  Claim C6, amended. With the ensemble score and the two concept counts held fixed, and
  \<open>key_concepts_present \<le> total_key_concepts\<close>, for coverages \<open>c1 \<le> c2\<close> in \<open>[0,1]\<close>
  \<open>calculate_final_score\<close> returns for both, and the adjusted similarity for \<open>c2\<close> is at
  least the one for \<open>c1\<close>.
\<close>

theorem coverage_monotone:
  assumes "0 \<le> c1" and "c1 \<le> c2" and "c2 \<le> 1"
    and "key_concepts_present \<le> total_key_concepts"
  shows "\<exists>r1 r2.
           calculate_final_score ensemble_score c1 key_concepts_present total_key_concepts = Inr r1
         \<and> calculate_final_score ensemble_score c2 key_concepts_present total_key_concepts = Inr r2
         \<and> s_similarity r1 \<le> s_similarity r2"
proof -
  have "min (ensemble_score + c1 * 0.15) 1 \<le> min (ensemble_score + c2 * 0.15) 1"
    using assms(2) by simp
  from partial_credit_step_mono[OF this assms(4)]
  obtain b1 b2 where b:
    "partial_credit_step (min (ensemble_score + c1 * 0.15) 1)
       key_concepts_present total_key_concepts = Inr b1"
    "partial_credit_step (min (ensemble_score + c2 * 0.15) 1)
       key_concepts_present total_key_concepts = Inr b2"
    "b1 \<le> b2"
    by blast
  from calculate_final_score_Inr[OF b(1)] calculate_final_score_Inr[OF b(2)] b(3)
  show ?thesis by force
qed

text \<open>The theorem across the partial-credit boundary: an ensemble score of 0.4 with 1 of
  2 key concepts, at the coverages 0 and 1.\<close>

theorem coverage_monotone_witness:
  "\<exists>r1 r2. calculate_final_score 0.4 0 1 2 = Inr r1
         \<and> calculate_final_score 0.4 1 1 2 = Inr r2
         \<and> s_similarity r1 \<le> s_similarity r2
         \<and> s_similarity r1 = 0.4 \<and> s_similarity r2 = 0.55"
  using coverage_monotone [of 0 1 1 2 "0.4"]
  by (auto simp add: calculate_final_score_def partial_credit_step_def Let_def)

subsection \<open>Normalizing twice\<close>

text \<open>
  Claim C7, on the code. The text \<open>a ! b\<close> is normalized to \<open>a  b\<close>, with two spaces:
  whitespace is collapsed before the punctuation between two spaces is removed. A second
  pass on \<open>a  b\<close> returns \<open>a b\<close> and records a correction.
\<close>

theorem preprocess_second_pass:
  "preprocess ''a ! b'' =
     Inr \<lparr> normalized_text = ''a  b'', corrections = [''Removed special punctuation''],
           preserved_terms = [] \<rparr>
   \<and> preprocess ''a  b'' =
     Inr \<lparr> normalized_text = ''a b'', corrections = [''Normalized whitespace''],
           preserved_terms = [] \<rparr>"
  by (simp add: preprocess_def py_lower_def lower_char_def py_isspace_def py_isword_def
      sub_punctuation_def py_strip_def Let_def)

subsection \<open>The bound on the score-stage confidence\<close>

text \<open>
  Claim C8. The score-stage confidence is at most 0.9 for every input, so it is in every
  result of \<open>calculate_final_score\<close> and in every response of the pipeline. A response of
  the endpoint with confidence 1.0 is the one for a reference that is not empty and a
  candidate that is empty.
\<close>

theorem score_confidence_at_most_09:
  "calculate_confidence ensemble_score concept_coverage key_concepts_present total_key_concepts
     \<le> 0.9
   \<and> (\<forall>r. calculate_final_score ensemble_score concept_coverage key_concepts_present
            total_key_concepts = Inr r \<longrightarrow> s_confidence r \<le> 0.9)
   \<and> (\<forall>r. enhanced_evaluate model_answer student_answer domain_name detailed = Inr r
            \<longrightarrow> confidence r \<le> 0.9)
   \<and> (\<forall>r. evaluate svc data = Reply r \<and> confidence r = 1 \<longrightarrow>
            py_strip (get_or (req_model_answer data) []) \<noteq> []
          \<and> py_strip (get_or (req_student_answer data) []) = [])"
proof (intro conjI allI impI)
  show "calculate_confidence ensemble_score concept_coverage key_concepts_present
          total_key_concepts \<le> 0.9"
    using confidence_bounds by blast
next
  fix r
  assume "calculate_final_score ensemble_score concept_coverage key_concepts_present
            total_key_concepts = Inr r"
  from final_score_confidence[OF this] show "s_confidence r \<le> 0.9"
    using confidence_bounds[of ensemble_score concept_coverage key_concepts_present
        total_key_concepts] by simp
next
  fix r
  assume "enhanced_evaluate model_answer student_answer domain_name detailed = Inr r"
  from enhanced_evaluate_review[OF this] show "confidence r \<le> 0.9" by blast
next
  fix r
  assume a: "evaluate svc data = Reply r \<and> confidence r = 1"
  then show "py_strip (get_or (req_model_answer data) []) \<noteq> []"
    using evaluate_review(2)[of svc data r] by blast
  from a show "py_strip (get_or (req_student_answer data) []) = []"
    using evaluate_review(2)[of svc data r] by blast
qed

text \<open>The theorem where the bound is met, a full coverage with a high ensemble score,
  and at a request with an empty candidate.\<close>

theorem score_confidence_at_most_09_witness:
  "calculate_confidence 1 1 3 3 = 0.9
   \<and> (\<exists>r. calculate_final_score 1 1 3 3 = Inr r \<and> s_confidence r \<le> 0.9)
   \<and> (\<exists>r. enhanced_evaluate ''loop'' ''x'' ''general'' True = Inr r \<and> confidence r \<le> 0.9)
   \<and> (\<exists>r. evaluate \<lparr> enhanced_mode_available = True, model = None \<rparr>
             \<lparr> req_model_answer = Some ''loop'', req_student_answer = Some [],
               req_domain = None, req_detailed = None \<rparr> = Reply r
          \<and> confidence r = 1
          \<and> py_strip (get_or (Some ''loop'') []) \<noteq> []
          \<and> py_strip (get_or (Some []) []) = [])"
proof -
  have c: "calculate_confidence 1 1 3 3 = 0.9"
    by (simp add: calculate_confidence_def Let_def)
  have f: "\<exists>r. calculate_final_score 1 1 3 3 = Inr r"
    by (simp add: calculate_final_score_def partial_credit_step_def Let_def)
  have ev: "evaluate \<lparr> enhanced_mode_available = True, model = None \<rparr>
             \<lparr> req_model_answer = Some ''loop'', req_student_answer = Some [],
               req_domain = None, req_detailed = None \<rparr> =
     Reply \<lparr> similarity = 0, score = 0, confidence = 1.0, needs_review = False,
             fallback = False, r_error = None,
             r_note = Some ''No student answer provided'', breakdown = None \<rparr>"
    by (simp add: evaluate_def no_data_def get_or_def py_strip_def py_isspace_def)
  from score_confidence_at_most_09 [of 1 1 3 3 "''loop''" "''x''" "''general''" True
      "\<lparr> enhanced_mode_available = True, model = None \<rparr>"
      "\<lparr> req_model_answer = Some ''loop'', req_student_answer = Some [],
         req_domain = None, req_detailed = None \<rparr>"] c f ev
  show ?thesis
    by (auto simp add: pipeline_loop_x)
qed

subsection \<open>The partial-credit division\<close>

text \<open>
  Claim C9. \<open>calculate_final_score\<close> raises only a division by zero, and exactly when
  \<open>ensemble_score + 0.15 * concept_coverage < 0.5\<close>, \<open>key_concepts_present > 0\<close> and
  \<open>total_key_concepts = 0\<close>: the division is guarded by the first two conditions and not
  by the divisor. With \<open>key_concepts_present \<le> total_key_concepts\<close> it returns a result,
  and the pipeline, which passes such counts, always returns a response.
\<close>

theorem partial_credit_division:
  "(key_concepts_present \<le> total_key_concepts \<longrightarrow>
      (\<exists>r. calculate_final_score ensemble_score concept_coverage
              key_concepts_present total_key_concepts = Inr r))
   \<and> (calculate_final_score ensemble_score concept_coverage
         key_concepts_present total_key_concepts = Inl err
       \<longleftrightarrow> err = ZeroDivisionError \<and> ensemble_score + 0.15 * concept_coverage < 0.5
           \<and> key_concepts_present > 0 \<and> total_key_concepts = 0)
   \<and> (\<exists>r. enhanced_evaluate model_answer student_answer domain_name detailed = Inr r)"
proof (intro conjI)
  show "key_concepts_present \<le> total_key_concepts \<longrightarrow>
      (\<exists>r. calculate_final_score ensemble_score concept_coverage
              key_concepts_present total_key_concepts = Inr r)"
    by (auto simp add: calculate_final_score_def partial_credit_step_def Let_def)
next
  show "calculate_final_score ensemble_score concept_coverage
         key_concepts_present total_key_concepts = Inl err
       \<longleftrightarrow> err = ZeroDivisionError \<and> ensemble_score + 0.15 * concept_coverage < 0.5
           \<and> key_concepts_present > 0 \<and> total_key_concepts = 0"
    by (auto simp add: calculate_final_score_def partial_credit_step_def Let_def min_def
        split: if_splits)
next
  show "\<exists>r. enhanced_evaluate model_answer student_answer domain_name detailed = Inr r"
    using enhanced_evaluate_summary[of model_answer student_answer domain_name detailed]
    by blast
qed

text \<open>The theorem at an ensemble score of 0.1 and a coverage of 0.5 with one key concept
  present: of two expected it returns, of none expected it raises.\<close>

theorem partial_credit_division_witness:
  "(\<exists>r. calculate_final_score 0.1 0.5 1 2 = Inr r)
   \<and> calculate_final_score 0.1 0.5 1 0 = Inl ZeroDivisionError
   \<and> (\<exists>r. enhanced_evaluate ''loop'' ''x'' ''general'' True = Inr r)"
  using partial_credit_division [of 1 2 "0.1" "0.5" ZeroDivisionError
      "''loop''" "''x''" "''general''" True]
    partial_credit_division [of 1 0 "0.1" "0.5" ZeroDivisionError
      "''loop''" "''x''" "''general''" True]
  by simp

subsection \<open>The finalizer only raises the score\<close>

text \<open>
  Claim C10. The finalizer never lowers the ensemble score: for an ensemble score in
  \<open>[0,1]\<close>, a concept coverage that is not negative and
  \<open>0 \<le> key_concepts_present \<le> total_key_concepts\<close>, \<open>calculate_final_score\<close> returns
  a result (it does not raise) whose similarity is at least the ensemble score.
\<close>

theorem finalizer_never_lowers:
  assumes "0 \<le> ensemble_score" and "ensemble_score \<le> 1"
    and "0 \<le> concept_coverage"
    and "0 \<le> key_concepts_present" and "key_concepts_present \<le> total_key_concepts"
  shows "\<exists>r. calculate_final_score ensemble_score concept_coverage
                key_concepts_present total_key_concepts = Inr r
             \<and> ensemble_score \<le> s_similarity r"
  using assms
  by (auto simp add: calculate_final_score_def partial_credit_step_def Let_def min_def
      split: if_splits)

text \<open>The theorem where the partial credit lifts the score: 0.2 with a coverage of 0.5
  and 1 of 2 key concepts gives 0.275.\<close>

theorem finalizer_never_lowers_witness:
  "\<exists>r. calculate_final_score 0.2 0.5 1 2 = Inr r \<and> 0.2 \<le> s_similarity r \<and> s_similarity r = 0.275"
  using finalizer_never_lowers [of "0.2" "0.5" 1 2]
  by (auto simp add: calculate_final_score_def partial_credit_step_def Let_def)

end
